theory Spec2Isabelle
  imports Complex_Main "HOL-Library.Word"
begin

section \<open>JavaScript data used by the service\<close>

text \<open>
  A JavaScript string is a sequence of UTF-16 code units, and \<open>length\<close>, \<open>slice\<close> count code
  units. Identity ids (the keys of the in-flight map and of both caches) are modelled that way,
  because \<open>maskDebugKey\<close> measures them and inserts the non-ASCII character U+2026, and so
  are error messages, which can contain an id. Texts that the code only compares with ASCII
  literals or passes on (error codes, tokens, time zone names, flush targets) and header
  values, which are byte strings, are modelled as \<open>string\<close>; \<open>js\<close> gives the code units of
  an ASCII literal.
\<close>

type_synonym jsstring = "16 word list"

definition js :: "string \<Rightarrow> jsstring" where
  "js s = map of_char s"

text \<open>
  A JavaScript \<open>Map\<close> keeps its keys in insertion order: \<open>set\<close> on a present key replaces
  the value in place, on a new key it appends; \<open>delete\<close> removes the key; \<open>clear\<close> empties it.
\<close>

type_synonym ('k, 'v) jsmap = "('k \<times> 'v) list"

definition mapHas :: "('k, 'v) jsmap \<Rightarrow> 'k \<Rightarrow> bool" where
  "mapHas m k = (map_of m k \<noteq> None)"

definition mapGet :: "('k, 'v) jsmap \<Rightarrow> 'k \<Rightarrow> 'v option" where
  "mapGet m k = map_of m k"

fun mapSet :: "('k, 'v) jsmap \<Rightarrow> 'k \<Rightarrow> 'v \<Rightarrow> ('k, 'v) jsmap" where
  "mapSet [] k v = [(k, v)]"
| "mapSet ((k', v') # m) k v = (if k' = k then (k, v) # m else (k', v') # mapSet m k v)"

definition mapDelete :: "('k, 'v) jsmap \<Rightarrow> 'k \<Rightarrow> ('k, 'v) jsmap" where
  "mapDelete m k = filter (\<lambda>p. fst p \<noteq> k) m"

definition mapSize :: "('k, 'v) jsmap \<Rightarrow> nat" where
  "mapSize m = length m"

definition mapKeys :: "('k, 'v) jsmap \<Rightarrow> 'k list" where
  "mapKeys m = map fst m"

text \<open>
  A thrown value. The code reads \<open>statusCode\<close>, \<open>code\<close>, \<open>message\<close>, the nested
  \<open>body.error.code\<close> and the \<open>retry-after\<close> header (on the error or on its \<open>response\<close>);
  a field that is undefined is \<open>None\<close>. \<open>requiresReauth\<close> is the flag that tasksService sets
  through \<open>throwServiceError\<close>.
\<close>

record js_error =
  statusCode :: "int option"
  code :: "string option"
  message :: "jsstring option"
  bodyErrorCode :: "string option"
  headersRetryAfter :: "string option"
  responseHeadersRetryAfter :: "string option"
  requiresReauth :: bool

definition Error :: "jsstring \<Rightarrow> js_error" where
  "Error msg = \<lparr>statusCode = None, code = None, message = Some msg, bodyErrorCode = None,
     headersRetryAfter = None, responseHeadersRetryAfter = None, requiresReauth = False\<rparr>"

text \<open>\<open>String.prototype.includes\<close>: the needle occurs as a contiguous substring.\<close>

fun startsWith :: "'a list \<Rightarrow> 'a list \<Rightarrow> bool" where
  "startsWith s [] = True"
| "startsWith [] (c # cs) = False"
| "startsWith (x # xs) (c # cs) = (x = c \<and> startsWith xs cs)"

fun includesStr :: "'a list \<Rightarrow> 'a list \<Rightarrow> bool" where
  "includesStr [] needle = (needle = [])"
| "includesStr (x # xs) needle = (startsWith (x # xs) needle \<or> includesStr xs needle)"

section \<open>Process-wide state of microsoftGraphService\<close>

record timestamped =
  timestamp :: int

record 'f folder_entry = timestamped +
  folders :: "'f list"

record 'a address_entry = timestamped +
  addresses :: "'a list"

record ('f, 'a) graph_state =
  activeRefreshes :: "(jsstring, nat) jsmap"
  folderDirectoryCache :: "(jsstring, 'f folder_entry) jsmap"
  userAddressCache :: "(jsstring, 'a address_entry) jsmap"

definition FOLDER_CACHE_TTL_MS :: int where
  "FOLDER_CACHE_TTL_MS = 5 * 60 * 1000"

definition USER_ADDRESS_CACHE_TTL_MS :: int where
  "USER_ADDRESS_CACHE_TTL_MS = 5 * 60 * 1000"

definition DEBUG_CACHE_ENTRY_LIMIT :: nat where
  "DEBUG_CACHE_ENTRY_LIMIT = 20"

section \<open>Directory caches: listLabels and getUserAddresses\<close>

text \<open>
  \<open>listLabels\<close> first reads the clock (\<open>now\<close>) and the cache. On a miss it performs the remote
  directory fetch (\<open>getAuthenticatedClient\<close>, \<open>handleGraphApiCall\<close> and the mapping of the
  response), whose outcome is the parameter \<open>remote\<close>. On success it stores the folders with a
  second clock reading \<open>now'\<close> (\<open>cacheFolders\<close> is that \<open>set\<close> statement); on failure it
  throws \<open>mapGoogleApiError error\<close>, a function of serviceErrors.js that is taken as the
  parameter \<open>mapErr\<close>. The result is the returned value or the thrown error, with the state
  afterwards. \<open>getUserAddresses\<close> has the same shape.
\<close>

definition cacheFolders ::
  "jsstring \<Rightarrow> 'f list \<Rightarrow> int \<Rightarrow> ('f, 'a) graph_state \<Rightarrow> ('f, 'a) graph_state" where
  "cacheFolders microsoftId fs now st =
     st\<lparr>folderDirectoryCache :=
          mapSet (folderDirectoryCache st) microsoftId \<lparr>timestamp = now, folders = fs\<rparr>\<rparr>"

definition listLabels ::
  "jsstring \<Rightarrow> int \<Rightarrow> (js_error + 'f list) \<Rightarrow> int \<Rightarrow> (js_error \<Rightarrow> js_error) \<Rightarrow>
   ('f, 'a) graph_state \<Rightarrow> (js_error + 'f list) \<times> ('f, 'a) graph_state" where
  "listLabels microsoftId now remote now' mapErr st =
     (let cached = mapGet (folderDirectoryCache st) microsoftId;
          fetch = (case remote of
                     Inl error \<Rightarrow> (Inl (mapErr error), st)
                   | Inr fs \<Rightarrow> (Inr fs, cacheFolders microsoftId fs now' st))
      in case cached of
           None \<Rightarrow> fetch
         | Some c \<Rightarrow>
             if now - timestamp c < FOLDER_CACHE_TTL_MS then (Inr (folders c), st) else fetch)"

definition cacheAddresses ::
  "jsstring \<Rightarrow> 'a list \<Rightarrow> int \<Rightarrow> ('f, 'a) graph_state \<Rightarrow> ('f, 'a) graph_state" where
  "cacheAddresses microsoftId as now st =
     st\<lparr>userAddressCache :=
          mapSet (userAddressCache st) microsoftId \<lparr>timestamp = now, addresses = as\<rparr>\<rparr>"

definition getUserAddresses ::
  "jsstring \<Rightarrow> int \<Rightarrow> (js_error + 'a list) \<Rightarrow> int \<Rightarrow> (js_error \<Rightarrow> js_error) \<Rightarrow>
   ('f, 'a) graph_state \<Rightarrow> (js_error + 'a list) \<times> ('f, 'a) graph_state" where
  "getUserAddresses microsoftId now remote now' mapErr st =
     (let cached = mapGet (userAddressCache st) microsoftId;
          fetch = (case remote of
                     Inl error \<Rightarrow> (Inl (mapErr error), st)
                   | Inr as \<Rightarrow> (Inr as, cacheAddresses microsoftId as now' st))
      in case cached of
           None \<Rightarrow> fetch
         | Some c \<Rightarrow>
             if now - timestamp c < USER_ADDRESS_CACHE_TTL_MS then (Inr (addresses c), st)
             else fetch)"

section \<open>Cache diagnostics\<close>

text \<open>
  \<open>maskDebugKey\<close>: the keys of the three maps are strings, so the \<open>typeof\<close> branch for other
  keys has no input here. \<open>slice(0, 3)\<close> is \<open>take 3\<close>, \<open>slice(-2)\<close> keeps the last two code
  units, and the separator is the single code unit U+2026.
\<close>

definition maskDebugKey :: "jsstring \<Rightarrow> jsstring" where
  "maskDebugKey key =
     (if length key \<le> 6 then key
      else take 3 key @ [0x2026] @ drop (length key - 2) key)"

text \<open>
  One entry of a cache summary. \<open>cachedAt\<close> holds the time stamp that the code prints in ISO
  format; \<open>itemCount\<close> is the field added by \<open>valueSummary\<close> (\<open>folderCount\<close> or
  \<open>addressCount\<close>). A time stamp of 0 is falsy in JavaScript, hence the \<open>None\<close>s.
\<close>

record debug_entry =
  key :: jsstring
  cachedAt :: "int option"
  ageMs :: "int option"
  expiresInMs :: "int option"
  itemCount :: nat

record cache_summary =
  summarySize :: nat
  ttlMs :: int
  entries :: "debug_entry list"

definition summarizeEntry ::
  "int \<Rightarrow> int \<Rightarrow> ('v \<Rightarrow> int) \<Rightarrow> ('v \<Rightarrow> nat) \<Rightarrow> jsstring \<times> 'v \<Rightarrow> debug_entry" where
  "summarizeEntry now ttl stamp valueSummary kv =
     (let ts = (if stamp (snd kv) \<noteq> 0 then Some (stamp (snd kv)) else None);
          age = map_option (\<lambda>t. now - t) ts
      in \<lparr>key = maskDebugKey (fst kv),
          cachedAt = ts,
          ageMs = age,
          expiresInMs = map_option (\<lambda>a. max 0 (ttl - a)) age,
          itemCount = valueSummary (snd kv)\<rparr>)"

definition ageOrZero :: "debug_entry \<Rightarrow> int" where
  "ageOrZero e = (case ageMs e of None \<Rightarrow> 0 | Some a \<Rightarrow> a)"

text \<open>
  \<open>entries.sort((a, b) => (b.ageMs ?? 0) - (a.ageMs ?? 0))\<close> is a stable sort by descending
  age; \<open>sort_key\<close> is a stable sort by ascending key.
\<close>

definition summarizeCacheEntries ::
  "(jsstring, 'v) jsmap \<Rightarrow> int \<Rightarrow> ('v \<Rightarrow> int) \<Rightarrow> ('v \<Rightarrow> nat) \<Rightarrow> int \<Rightarrow> cache_summary" where
  "summarizeCacheEntries cache ttl stamp valueSummary now =
     \<lparr>summarySize = mapSize cache,
      ttlMs = ttl,
      entries = take DEBUG_CACHE_ENTRY_LIMIT
        (sort_key (\<lambda>e. - ageOrZero e) (map (summarizeEntry now ttl stamp valueSummary) cache))\<rparr>"

record diagnostics =
  activeRefreshCount :: nat
  users :: "jsstring list"
  folderDirectorySummary :: cache_summary
  userAddressSummary :: cache_summary

definition getDebugDiagnostics :: "int \<Rightarrow> int \<Rightarrow> ('f, 'a) graph_state \<Rightarrow> diagnostics" where
  "getDebugDiagnostics now1 now2 st =
     \<lparr>activeRefreshCount = mapSize (activeRefreshes st),
      users = map maskDebugKey (mapKeys (activeRefreshes st)),
      folderDirectorySummary =
        summarizeCacheEntries (folderDirectoryCache st) FOLDER_CACHE_TTL_MS
          timestamp (\<lambda>v. length (folders v)) now1,
      userAddressSummary =
        summarizeCacheEntries (userAddressCache st) USER_ADDRESS_CACHE_TTL_MS
          timestamp (\<lambda>v. length (addresses v)) now2\<rparr>"

definition reportedKeys :: "diagnostics \<Rightarrow> jsstring list" where
  "reportedKeys d =
     users d @ map key (entries (folderDirectorySummary d))
       @ map key (entries (userAddressSummary d))"

subsection \<open>flushDebugCaches\<close>

text \<open>
  \<open>toLowerCase\<close> on the ASCII letters. Outside ASCII the only characters whose lower case
  contains an ASCII letter are U+212A (to k) and U+0130 (to i and a combining dot); neither
  letter occurs in the two names the filter compares with, so the comparison is not affected.
\<close>

definition lowerChar :: "char \<Rightarrow> char" where
  "lowerChar c =
     (case map_of (zip ''ABCDEFGHIJKLMNOPQRSTUVWXYZ'' ''abcdefghijklmnopqrstuvwxyz'') c of
        Some l \<Rightarrow> l
      | None \<Rightarrow> c)"

definition toLowerCase :: "string \<Rightarrow> string" where
  "toLowerCase s = map lowerChar s"

text \<open>A JavaScript \<open>Set\<close> built from a list: first occurrences, in insertion order.\<close>

definition setAdd :: "'a list \<Rightarrow> 'a \<Rightarrow> 'a list" where
  "setAdd s x = (if x \<in> set s then s else s @ [x])"

definition newSet :: "'a list \<Rightarrow> 'a list" where
  "newSet xs = foldl setAdd [] xs"

record flush_result =
  clearedFolders :: "nat option"
  clearedAddresses :: "nat option"
  targets :: "string list"

text \<open>
  The argument is \<open>None\<close> when \<open>targets\<close> is absent or not an array, and otherwise the list of
  \<open>String(target)\<close> of its elements.
\<close>

definition flushDebugCaches ::
  "string list option \<Rightarrow> ('f, 'a) graph_state \<Rightarrow> flush_result \<times> ('f, 'a) graph_state" where
  "flushDebugCaches tgs st =
     (let normalizedTargets = (case tgs of None \<Rightarrow> [] | Some ts \<Rightarrow> map toLowerCase ts);
          filtered = newSet (filter (\<lambda>t. t = ''folders'' \<or> t = ''addresses'') normalizedTargets);
          targetSet = (if length filtered = 0
                       then setAdd (setAdd filtered ''folders'') ''addresses'' else filtered);
          f = (''folders'' \<in> set targetSet);
          a = (''addresses'' \<in> set targetSet)
      in (\<lparr>clearedFolders = (if f then Some (mapSize (folderDirectoryCache st)) else None),
           clearedAddresses = (if a then Some (mapSize (userAddressCache st)) else None),
           targets = targetSet\<rparr>,
          st\<lparr>folderDirectoryCache := (if f then [] else folderDirectoryCache st),
             userAddressCache := (if a then [] else userAddressCache st)\<rparr>))"

definition recognized :: "string \<Rightarrow> bool" where
  "recognized t = (toLowerCase t = ''folders'' \<or> toLowerCase t = ''addresses'')"

section \<open>timezoneConverter\<close>

text \<open>
  Both conversions read a plain object with \<open>obj[key]\<close>. Such a read finds an own property
  or else a member inherited from \<open>Object.prototype\<close>, so its result is a string of the table
  or an inherited member (a built-in function, or \<open>Object.prototype\<close> itself under
  \<open>__proto__\<close>), named here by the property it was found under; \<open>None\<close> is \<open>undefined\<close>.
\<close>

datatype jsval = Str string | Inherited string

definition objectPrototypeNames :: "string list" where
  "objectPrototypeNames =
     [''constructor'', ''__defineGetter__'', ''__defineSetter__'', ''hasOwnProperty'',
      ''__lookupGetter__'', ''__lookupSetter__'', ''isPrototypeOf'', ''propertyIsEnumerable'',
      ''toString'', ''valueOf'', ''__proto__'', ''toLocaleString'']"

definition truthy :: "jsval \<Rightarrow> bool" where
  "truthy v = (case v of Str s \<Rightarrow> s \<noteq> [] | Inherited n \<Rightarrow> True)"

text \<open>
  A value used as a property key is converted to a string: a built-in function prints as its
  native-code source text, \<open>Object.prototype\<close> as \<open>[object Object]\<close>.
\<close>

definition toPropertyKey :: "jsval \<Rightarrow> string" where
  "toPropertyKey v =
     (case v of
        Str s \<Rightarrow> s
      | Inherited n \<Rightarrow>
          if n = ''__proto__'' then ''[object Object]''
          else if n = ''constructor'' then ''function Object() { [native code] }''
          else ''function '' @ n @ ''() { [native code] }'')"

definition getProperty :: "(string \<times> string) list \<Rightarrow> string \<Rightarrow> jsval option" where
  "getProperty own k =
     (case map_of own k of
        Some v \<Rightarrow> Some (Str v)
      | None \<Rightarrow> if k \<in> set objectPrototypeNames then Some (Inherited k) else None)"

text \<open>
  The table, in the order of the object literal; \<open>Object.entries\<close> enumerates it in that order
  (no key is an array index).
\<close>

definition ianaToWindowsMap :: "(string \<times> string) list" where
  "ianaToWindowsMap =
    [(''Europe/Prague'', ''Central Europe Standard Time''),
     (''Europe/Berlin'', ''W. Europe Standard Time''),
     (''Europe/Paris'', ''Romance Standard Time''),
     (''Europe/Rome'', ''W. Europe Standard Time''),
     (''Europe/London'', ''GMT Standard Time''),
     (''Europe/Amsterdam'', ''W. Europe Standard Time''),
     (''Europe/Brussels'', ''Romance Standard Time''),
     (''Europe/Vienna'', ''W. Europe Standard Time''),
     (''Europe/Warsaw'', ''Central European Standard Time''),
     (''Europe/Budapest'', ''Central Europe Standard Time''),
     (''Europe/Athens'', ''GTB Standard Time''),
     (''Europe/Istanbul'', ''Turkey Standard Time''),
     (''Europe/Moscow'', ''Russian Standard Time''),
     (''Europe/Kiev'', ''FLE Standard Time''),
     (''Europe/Bucharest'', ''GTB Standard Time''),
     (''Europe/Sofia'', ''FLE Standard Time''),
     (''Europe/Helsinki'', ''FLE Standard Time''),
     (''Europe/Stockholm'', ''W. Europe Standard Time''),
     (''Europe/Copenhagen'', ''Romance Standard Time''),
     (''Europe/Oslo'', ''W. Europe Standard Time''),
     (''Europe/Lisbon'', ''GMT Standard Time''),
     (''Europe/Madrid'', ''Romance Standard Time''),
     (''Europe/Zurich'', ''W. Europe Standard Time''),
     (''Europe/Dublin'', ''GMT Standard Time''),
     (''America/New_York'', ''Eastern Standard Time''),
     (''America/Chicago'', ''Central Standard Time''),
     (''America/Denver'', ''Mountain Standard Time''),
     (''America/Los_Angeles'', ''Pacific Standard Time''),
     (''America/Phoenix'', ''US Mountain Standard Time''),
     (''America/Anchorage'', ''Alaskan Standard Time''),
     (''America/Honolulu'', ''Hawaiian Standard Time''),
     (''America/Toronto'', ''Eastern Standard Time''),
     (''America/Vancouver'', ''Pacific Standard Time''),
     (''America/Edmonton'', ''Mountain Standard Time''),
     (''America/Winnipeg'', ''Central Standard Time''),
     (''America/Halifax'', ''Atlantic Standard Time''),
     (''America/St_Johns'', ''Newfoundland Standard Time''),
     (''America/Mexico_City'', ''Central Standard Time (Mexico)''),
     (''America/Cancun'', ''Eastern Standard Time (Mexico)''),
     (''America/Tijuana'', ''Pacific Standard Time (Mexico)''),
     (''America/Guatemala'', ''Central America Standard Time''),
     (''America/San_Jose'', ''Central America Standard Time''),
     (''America/Panama'', ''SA Pacific Standard Time''),
     (''America/Havana'', ''Cuba Standard Time''),
     (''America/Port-au-Prince'', ''Haiti Standard Time''),
     (''America/Santo_Domingo'', ''SA Western Standard Time''),
     (''America/Sao_Paulo'', ''E. South America Standard Time''),
     (''America/Buenos_Aires'', ''Argentina Standard Time''),
     (''America/Bogota'', ''SA Pacific Standard Time''),
     (''America/Lima'', ''SA Pacific Standard Time''),
     (''America/Santiago'', ''Pacific SA Standard Time''),
     (''America/Caracas'', ''Venezuela Standard Time''),
     (''America/La_Paz'', ''SA Western Standard Time''),
     (''America/Montevideo'', ''Montevideo Standard Time''),
     (''Asia/Tokyo'', ''Tokyo Standard Time''),
     (''Asia/Seoul'', ''Korea Standard Time''),
     (''Asia/Shanghai'', ''China Standard Time''),
     (''Asia/Hong_Kong'', ''China Standard Time''),
     (''Asia/Taipei'', ''Taipei Standard Time''),
     (''Asia/Beijing'', ''China Standard Time''),
     (''Asia/Singapore'', ''Singapore Standard Time''),
     (''Asia/Bangkok'', ''SE Asia Standard Time''),
     (''Asia/Jakarta'', ''SE Asia Standard Time''),
     (''Asia/Manila'', ''Singapore Standard Time''),
     (''Asia/Ho_Chi_Minh'', ''SE Asia Standard Time''),
     (''Asia/Kuala_Lumpur'', ''Singapore Standard Time''),
     (''Asia/Kolkata'', ''India Standard Time''),
     (''Asia/Mumbai'', ''India Standard Time''),
     (''Asia/Dhaka'', ''Bangladesh Standard Time''),
     (''Asia/Karachi'', ''Pakistan Standard Time''),
     (''Asia/Colombo'', ''Sri Lanka Standard Time''),
     (''Asia/Kathmandu'', ''Nepal Standard Time''),
     (''Asia/Almaty'', ''Central Asia Standard Time''),
     (''Asia/Tashkent'', ''West Asia Standard Time''),
     (''Asia/Yekaterinburg'', ''Ekaterinburg Standard Time''),
     (''Asia/Dubai'', ''Arabian Standard Time''),
     (''Asia/Riyadh'', ''Arab Standard Time''),
     (''Asia/Kuwait'', ''Arab Standard Time''),
     (''Asia/Doha'', ''Arab Standard Time''),
     (''Asia/Muscat'', ''Arabian Standard Time''),
     (''Asia/Bahrain'', ''Arab Standard Time''),
     (''Asia/Tehran'', ''Iran Standard Time''),
     (''Asia/Baghdad'', ''Arabic Standard Time''),
     (''Asia/Jerusalem'', ''Israel Standard Time''),
     (''Asia/Beirut'', ''Middle East Standard Time''),
     (''Asia/Damascus'', ''Syria Standard Time''),
     (''Asia/Amman'', ''Jordan Standard Time''),
     (''Australia/Sydney'', ''AUS Eastern Standard Time''),
     (''Australia/Melbourne'', ''AUS Eastern Standard Time''),
     (''Australia/Brisbane'', ''E. Australia Standard Time''),
     (''Australia/Perth'', ''W. Australia Standard Time''),
     (''Australia/Adelaide'', ''Cen. Australia Standard Time''),
     (''Australia/Darwin'', ''AUS Central Standard Time''),
     (''Australia/Hobart'', ''Tasmania Standard Time''),
     (''Pacific/Auckland'', ''New Zealand Standard Time''),
     (''Pacific/Fiji'', ''Fiji Standard Time''),
     (''Pacific/Honolulu'', ''Hawaiian Standard Time''),
     (''Pacific/Guam'', ''West Pacific Standard Time''),
     (''Pacific/Port_Moresby'', ''West Pacific Standard Time''),
     (''Pacific/Tongatapu'', ''Tonga Standard Time''),
     (''Africa/Cairo'', ''Egypt Standard Time''),
     (''Africa/Johannesburg'', ''South Africa Standard Time''),
     (''Africa/Nairobi'', ''E. Africa Standard Time''),
     (''Africa/Lagos'', ''W. Central Africa Standard Time''),
     (''Africa/Casablanca'', ''Morocco Standard Time''),
     (''Atlantic/Reykjavik'', ''Greenwich Standard Time''),
     (''Atlantic/Azores'', ''Azores Standard Time''),
     (''Atlantic/Cape_Verde'', ''Cape Verde Standard Time''),
     (''UTC'', ''UTC''),
     (''Etc/UTC'', ''UTC''),
     (''Etc/GMT'', ''UTC''),
     (''GMT'', ''UTC'')]"

definition convertIANAToWindows :: "jsval \<Rightarrow> jsval" where
  "convertIANAToWindows ianaTimezone =
     (if \<not> truthy ianaTimezone then Str ''UTC''
      else case getProperty ianaToWindowsMap (toPropertyKey ianaTimezone) of
             None \<Rightarrow> Str ''UTC''
           | Some windowsTimezone \<Rightarrow>
               if \<not> truthy windowsTimezone then Str ''UTC'' else windowsTimezone)"

text \<open>
  The loop that builds \<open>reverseMap\<close>: an entry is written only while
  \<open>reverseMap[windows]\<close> is falsy, so the first IANA name of a Windows name stays.
\<close>

fun buildReverseMap ::
  "(string \<times> string) list \<Rightarrow> (string \<times> string) list \<Rightarrow> (string \<times> string) list" where
  "buildReverseMap [] reverseMap = reverseMap"
| "buildReverseMap ((iana, windows) # rest) reverseMap =
     buildReverseMap rest
       (if (case getProperty reverseMap windows of None \<Rightarrow> True | Some v \<Rightarrow> \<not> truthy v)
        then mapSet reverseMap windows iana else reverseMap)"

definition convertWindowsToIANA :: "jsval \<Rightarrow> jsval" where
  "convertWindowsToIANA windowsTimezone =
     (if \<not> truthy windowsTimezone then Str ''UTC''
      else case getProperty (buildReverseMap ianaToWindowsMap [])
                  (toPropertyKey windowsTimezone) of
             None \<Rightarrow> Str ''UTC''
           | Some ianaTimezone \<Rightarrow>
               if \<not> truthy ianaTimezone then Str ''UTC'' else ianaTimezone)"

section \<open>graphRetry\<close>























section \<open>handleGraphApiCall\<close>








section \<open>Token refresh: config/microsoft.js\<close>

text \<open>
  The JSON body of the token endpoint's reply, with \<open>response.ok\<close>. The two error fields go
  into a message, where an absent field prints as \<open>undefined\<close> and \<open>null\<close> as \<open>null\<close>, so
  they keep the three cases apart. \<open>refresh_token\<close> is only tested for truthiness and used
  when truthy: absent and \<open>null\<close> are both \<open>None\<close> there.
\<close>

datatype json_text = JAbsent | JNull | JText jsstring

record token_response =
  response_ok :: bool
  data_access_token :: string
  data_refresh_token :: "string option"
  data_expires_in :: int
  data_error :: json_text
  data_error_description :: json_text

text \<open>
  What \<open>refreshAccessToken\<close> returns; \<open>token_type\<close>, \<open>scope\<close>, \<open>id_token\<close> and
  \<open>expiry_date\<close> are passed on too and read by no caller.
\<close>

record new_tokens =
  access_token :: string
  refresh_token :: string
  expires_in :: int

text \<open>\<open>a || b\<close> on optional strings: an empty string is falsy.\<close>

definition orElse :: "'c list option \<Rightarrow> 'c list option \<Rightarrow> 'c list option" where
  "orElse a b = (case a of Some x \<Rightarrow> if x \<noteq> [] then Some x else b | None \<Rightarrow> b)"

text \<open>\<open>a || b\<close> on JSON texts: absent, \<open>null\<close> and the empty string are falsy.\<close>

definition textOrElse :: "json_text \<Rightarrow> json_text \<Rightarrow> json_text" where
  "textOrElse a b = (case a of JText x \<Rightarrow> if x \<noteq> [] then JText x else b | other \<Rightarrow> b)"

text \<open>A value inside a template literal: \<open>undefined\<close> and \<open>null\<close> print as those words.\<close>

definition templateText :: "json_text \<Rightarrow> jsstring" where
  "templateText v =
     (case v of JText x \<Rightarrow> x | JAbsent \<Rightarrow> js ''undefined'' | JNull \<Rightarrow> js ''null'')"

text \<open>
  \<open>refreshAccessToken\<close>. \<open>fetched\<close> is the outcome of \<open>fetch\<close> and \<open>response.json()\<close>: an
  exception of either, or the reply. The \<open>catch\<close> of the function logs and rethrows.
\<close>

definition refreshAccessToken :: "string \<Rightarrow> js_error + token_response \<Rightarrow> js_error + new_tokens" where
  "refreshAccessToken refreshToken' fetched =
     (case fetched of
        Inl networkError \<Rightarrow> Inl networkError
      | Inr data \<Rightarrow>
          if \<not> response_ok data then
            Inl (Error (js ''Microsoft token refresh failed: ''
                   @ templateText (textOrElse (data_error_description data) (data_error data))))
          else
            Inr \<lparr>access_token = data_access_token data,
                 refresh_token =
                   (case orElse (data_refresh_token data) (Some refreshToken') of
                      Some t \<Rightarrow> t | None \<Rightarrow> refreshToken'),
                 expires_in = data_expires_in data\<rparr>)"

section \<open>Token lifecycle: getValidAccessToken\<close>

record user =
  accessToken :: string
  refreshToken :: string
  tokenExpiry :: int

text \<open>
  The world of the token functions: the process state of the service, the credential store
  behind databaseService.js, and the number of requests sent to the token endpoint.

  Modelled from the spec: \<open>getUserByMicrosoftId\<close> of databaseService.js, which is not among
  the sources. The spec's credential store has \<open>load(identityId)\<close>, giving the record or
  \<open>null\<close>: a read of \<open>credentialStore\<close>.
\<close>

record ('f, 'a) world = "('f, 'a) graph_state" +
  credentialStore :: "jsstring \<Rightarrow> user option"
  tokenRequests :: nat

text \<open>
  Modelled from the spec: \<open>updateTokens\<close> of databaseService.js, which is not among the
  sources. The spec's credential store has \<open>save(identityId, fields)\<close>: the record of the
  identity then holds the given access token, refresh token and expiry.
\<close>

definition updateTokens ::
  "jsstring \<Rightarrow> user \<Rightarrow> ('f, 'a, 'z) world_scheme \<Rightarrow> ('f, 'a, 'z) world_scheme" where
  "updateTokens microsoftId saved w =
     w\<lparr>credentialStore := (credentialStore w)(microsoftId \<mapsto> saved)\<rparr>"

text \<open>
  Modelled from the spec: \<open>isTokenExpired\<close> of utils/tokenExpiry.js, which is not among the
  sources. The spec returns the cached token when \<open>expiry - now > safetyMargin\<close>.
\<close>

definition isTokenExpired :: "int \<Rightarrow> int \<Rightarrow> int \<Rightarrow> bool" where
  "isTokenExpired safetyMargin' dateNow' expiry = (\<not> expiry - dateNow' > safetyMargin')"

text \<open>
  What one call of \<open>getValidAccessToken\<close> meets, when no other call runs in between: the
  outcome of a refresh already in flight, of the three database calls (\<open>Some\<close> is the error
  a call rejects with) and of the request to the token endpoint; the clock; and the absent
  \<open>determineExpiryDate\<close> of utils/tokenExpiry.js, taken as a parameter. The effect of
  \<open>updateLastUsed\<close> on the record's last-used time is read by no function here and is left out.
\<close>

record token_env =
  inFlightOutcome :: "js_error + string"
  loadFailure :: "js_error option"
  dateNow :: int
  safetyMargin :: int
  touchFailure :: "js_error option"
  tokenEndpoint :: "js_error + token_response"
  determineExpiryDate :: "int \<Rightarrow> int"
  saveFailure :: "js_error option"

text \<open>The \<open>catch\<close> block of the refresh promise.\<close>

definition classifyRefreshError :: "js_error \<Rightarrow> js_error" where
  "classifyRefreshError error =
     (if (case message error of Some m \<Rightarrow> includesStr m (js ''invalid_grant'') | None \<Rightarrow> False)
         \<or> (case message error of Some m \<Rightarrow> includesStr m (js ''refresh token'') | None \<Rightarrow> False)
      then Error (js ''REFRESH_TOKEN_EXPIRED: User must re-authenticate'')
      else error)"

text \<open>The record that the refresh promise passes to \<open>updateTokens\<close>.\<close>

definition refreshedUser :: "(int \<Rightarrow> int) \<Rightarrow> new_tokens \<Rightarrow> user" where
  "refreshedUser expiryOf newTokens =
     \<lparr>accessToken = access_token newTokens,
      refreshToken = refresh_token newTokens,
      tokenExpiry = expiryOf (expires_in newTokens)\<rparr>"

text \<open>
  The refresh promise, run to its end: the request is sent, and on success the tokens are
  saved and the new access token is the result. Every exception inside, that of
  \<open>updateTokens\<close> included, goes through the \<open>catch\<close> block.
\<close>

definition refreshPromise ::
  "token_env \<Rightarrow> jsstring \<Rightarrow> user \<Rightarrow> ('f, 'a, 'z) world_scheme \<Rightarrow>
   (js_error + string) \<times> ('f, 'a, 'z) world_scheme" where
  "refreshPromise env microsoftId usr w =
     (let sent = w\<lparr>tokenRequests := tokenRequests w + 1\<rparr>
      in case refreshAccessToken (refreshToken usr) (tokenEndpoint env) of
           Inl error \<Rightarrow> (Inl (classifyRefreshError error), sent)
         | Inr newTokens \<Rightarrow>
             (case saveFailure env of
                Some error \<Rightarrow> (Inl (classifyRefreshError error), sent)
              | None \<Rightarrow>
                  (Inr (access_token newTokens),
                   updateTokens microsoftId
                     (refreshedUser (determineExpiryDate env) newTokens) sent)))"

text \<open>
  \<open>getValidAccessToken\<close> of microsoftGraphService, one call run to its end. The promise is
  registered in \<open>activeRefreshes\<close> once the request is sent and removed in the \<open>finally\<close>;
  the outer \<open>catch\<close> logs and rethrows.
\<close>

definition getValidAccessToken ::
  "token_env \<Rightarrow> jsstring \<Rightarrow> bool \<Rightarrow> ('f, 'a, 'z) world_scheme \<Rightarrow>
   (js_error + string) \<times> ('f, 'a, 'z) world_scheme" where
  "getValidAccessToken env microsoftId forceRefresh w =
     (if mapHas (activeRefreshes w) microsoftId then (inFlightOutcome env, w)
      else case loadFailure env of
        Some error \<Rightarrow> (Inl error, w)
      | None \<Rightarrow>
          (case credentialStore w microsoftId of
             None \<Rightarrow> (Inl (Error (js ''User not found for Microsoft ID: '' @ microsoftId)), w)
           | Some usr \<Rightarrow>
               (let needsRefresh =
                      (forceRefresh
                       \<or> isTokenExpired (safetyMargin env) (dateNow env) (tokenExpiry usr))
                in if \<not> needsRefresh then
                     (case touchFailure env of
                        Some error \<Rightarrow> (Inl error, w)
                      | None \<Rightarrow> (Inr (accessToken usr), w))
                   else
                     (let settled = refreshPromise env microsoftId usr w;
                          w' = snd settled
                      in (fst settled,
                          w'\<lparr>activeRefreshes :=
                               mapDelete (mapSet (activeRefreshes w') microsoftId 0)
                                 microsoftId\<rparr>)))))"

subsection \<open>The variant in tasksService\<close>

text \<open>
  \<open>throwServiceError message fields\<close> and \<open>mapGoogleApiError\<close> belong to serviceErrors.js,
  which is not among the sources: the first is taken to throw an error with that message and
  those fields, the second is the parameter \<open>mapErr\<close>. \<open>updateLastUsed\<close> is started and
  not awaited, and its rejection is caught and logged.
\<close>

definition serviceError :: "jsstring \<Rightarrow> int \<Rightarrow> string \<Rightarrow> js_error" where
  "serviceError msg status errorCode =
     (Error msg)\<lparr>statusCode := Some status, code := Some errorCode, requiresReauth := True\<rparr>"

text \<open>The record that the variant passes to \<open>updateTokens\<close>.\<close>

definition tasksRefreshedUser :: "(int \<Rightarrow> int) \<Rightarrow> user \<Rightarrow> new_tokens \<Rightarrow> user" where
  "tasksRefreshedUser expiryOf usr newTokens =
     \<lparr>accessToken = access_token newTokens,
      refreshToken =
        (case orElse (Some (refresh_token newTokens)) (Some (refreshToken usr)) of
           Some t \<Rightarrow> t | None \<Rightarrow> refreshToken usr),
      tokenExpiry = expiryOf (expires_in newTokens)\<rparr>"

definition tasksGetValidAccessToken ::
  "token_env \<Rightarrow> (js_error \<Rightarrow> js_error) \<Rightarrow> jsstring \<Rightarrow> ('f, 'a, 'z) world_scheme \<Rightarrow>
   (js_error + string) \<times> ('f, 'a, 'z) world_scheme" where
  "tasksGetValidAccessToken env mapErr microsoftId w =
     (case loadFailure env of
        Some error \<Rightarrow> (Inl (mapErr error), w)
      | None \<Rightarrow>
          (case credentialStore w microsoftId of
             None \<Rightarrow>
               (Inl (mapErr (serviceError (js ''User not found in database'') 401
                       ''TASKS_USER_NOT_FOUND'')), w)
           | Some usr \<Rightarrow>
               if isTokenExpired (safetyMargin env) (dateNow env) (tokenExpiry usr) then
                 (let sent = w\<lparr>tokenRequests := tokenRequests w + 1\<rparr>;
                      reauth = mapErr (serviceError
                        (js ''Authentication required - please log in again'') 401
                        ''MICROSOFT_UNAUTHORIZED'')
                  in case refreshAccessToken (refreshToken usr) (tokenEndpoint env) of
                       Inl refreshError \<Rightarrow> (Inl reauth, sent)
                     | Inr newTokens \<Rightarrow>
                         (case saveFailure env of
                            Some refreshError \<Rightarrow> (Inl reauth, sent)
                          | None \<Rightarrow>
                              (Inr (access_token newTokens),
                               updateTokens microsoftId
                                 (tasksRefreshedUser (determineExpiryDate env) usr newTokens)
                                 sent)))
               else (Inr (accessToken usr), w)))"

section \<open>Concurrent calls of getValidAccessToken\<close>

text \<open>
  JavaScript runs one piece of code at a time: a call of an async function runs up to its next
  \<open>await\<close> and goes on when the event loop delivers what it waits for. The system holds the
  world, the calls of \<open>getValidAccessToken\<close> in progress, each with its identity and the
  \<open>await\<close> it stands at, and the refresh promises, each with its identity and its state.
\<close>

datatype call_pc =
    AwaitInFlight nat
  | AwaitUser bool
  | AwaitTouch string
  | AwaitRefresh nat
  | Finished "js_error + string"

datatype promise_pc =
    AwaitTokenEndpoint string
  | AwaitUpdateTokens new_tokens
  | Settled "js_error + string"

record ('f, 'a) system = "('f, 'a) world" +
  calls :: "(jsstring \<times> call_pc) list"
  promises :: "(jsstring \<times> promise_pc) list"

text \<open>
  \<open>AwaitInFlight p\<close>: the \<open>await\<close> of the promise found in \<open>activeRefreshes\<close>;
  \<open>AwaitUser forceRefresh\<close>: that of \<open>getUserByMicrosoftId\<close>; \<open>AwaitTouch token\<close>: that of
  \<open>updateLastUsed\<close>, before \<open>user.accessToken\<close> is returned; \<open>AwaitRefresh p\<close>: that of the
  call's own refresh promise. A promise waits for the token endpoint (\<open>fetch\<close> and
  \<open>response.json()\<close>, with the refresh token it sent) or for \<open>updateTokens\<close>.

  An event is a new call, or the delivery of one awaited result: the user record (with the
  clock that \<open>isTokenExpired\<close> then reads), the end of \<open>updateLastUsed\<close>, the reply of the
  token endpoint, the end of \<open>updateTokens\<close>, or the continuation of a call whose promise
  has settled. \<open>Some error\<close> is a rejection.
\<close>

datatype event =
    Invoke jsstring bool
  | UserLoaded nat "js_error option" int
  | LastUsedUpdated nat "js_error option"
  | TokenEndpointReplied nat "js_error + token_response"
  | TokensUpdated nat "js_error option"
  | Continue nat

definition setCall ::
  "nat \<Rightarrow> call_pc \<Rightarrow> ('f, 'a, 'z) system_scheme \<Rightarrow> ('f, 'a, 'z) system_scheme" where
  "setCall n pc s = s\<lparr>calls := (calls s)[n := (fst (calls s ! n), pc)]\<rparr>"

definition setPromise ::
  "nat \<Rightarrow> promise_pc \<Rightarrow> ('f, 'a, 'z) system_scheme \<Rightarrow> ('f, 'a, 'z) system_scheme" where
  "setPromise p pc s = s\<lparr>promises := (promises s)[p := (fst (promises s ! p), pc)]\<rparr>"

text \<open>The entry of the function, up to its first \<open>await\<close>.\<close>

definition invoke ::
  "jsstring \<Rightarrow> bool \<Rightarrow> ('f, 'a, 'z) system_scheme \<Rightarrow> ('f, 'a, 'z) system_scheme" where
  "invoke microsoftId forceRefresh s =
     (case mapGet (activeRefreshes s) microsoftId of
        Some p \<Rightarrow> s\<lparr>calls := calls s @ [(microsoftId, AwaitInFlight p)]\<rparr>
      | None \<Rightarrow> s\<lparr>calls := calls s @ [(microsoftId, AwaitUser forceRefresh)]\<rparr>)"

text \<open>
  From the user record to the next \<open>await\<close>. When a refresh is needed the refresh promise
  starts and runs into \<open>fetch\<close>, so the request is sent; then the promise is stored in
  \<open>activeRefreshes\<close> and the call waits for it.
\<close>

definition userLoaded ::
  "int \<Rightarrow> nat \<Rightarrow> js_error option \<Rightarrow> int \<Rightarrow> ('f, 'a, 'z) system_scheme \<Rightarrow>
   ('f, 'a, 'z) system_scheme" where
  "userLoaded safetyMargin' n failure dateNow' s =
     (if n < length (calls s) then
        (case calls s ! n of
           (microsoftId, AwaitUser forceRefresh) \<Rightarrow>
             (case failure of
                Some error \<Rightarrow> setCall n (Finished (Inl error)) s
              | None \<Rightarrow>
                  (case credentialStore s microsoftId of
                     None \<Rightarrow>
                       setCall n (Finished (Inl (Error
                         (js ''User not found for Microsoft ID: '' @ microsoftId)))) s
                   | Some usr \<Rightarrow>
                       if \<not> (forceRefresh
                             \<or> isTokenExpired safetyMargin' dateNow' (tokenExpiry usr))
                       then setCall n (AwaitTouch (accessToken usr)) s
                       else
                         (let p = length (promises s)
                          in setCall n (AwaitRefresh p)
                               (s\<lparr>tokenRequests := tokenRequests s + 1,
                                  promises := promises s
                                    @ [(microsoftId, AwaitTokenEndpoint (refreshToken usr))],
                                  activeRefreshes :=
                                    mapSet (activeRefreshes s) microsoftId p\<rparr>))))
         | (microsoftId, pc) \<Rightarrow> s)
      else s)"

definition lastUsedUpdated ::
  "nat \<Rightarrow> js_error option \<Rightarrow> ('f, 'a, 'z) system_scheme \<Rightarrow> ('f, 'a, 'z) system_scheme" where
  "lastUsedUpdated n failure s =
     (if n < length (calls s) then
        (case calls s ! n of
           (microsoftId, AwaitTouch token) \<Rightarrow>
             (case failure of
                Some error \<Rightarrow> setCall n (Finished (Inl error)) s
              | None \<Rightarrow> setCall n (Finished (Inr token)) s)
         | (microsoftId, pc) \<Rightarrow> s)
      else s)"

definition tokenEndpointReplied ::
  "nat \<Rightarrow> js_error + token_response \<Rightarrow> ('f, 'a, 'z) system_scheme \<Rightarrow>
   ('f, 'a, 'z) system_scheme" where
  "tokenEndpointReplied p fetched s =
     (if p < length (promises s) then
        (case promises s ! p of
           (microsoftId, AwaitTokenEndpoint sentToken) \<Rightarrow>
             (case refreshAccessToken sentToken fetched of
                Inl error \<Rightarrow> setPromise p (Settled (Inl (classifyRefreshError error))) s
              | Inr newTokens \<Rightarrow> setPromise p (AwaitUpdateTokens newTokens) s)
         | (microsoftId, pc) \<Rightarrow> s)
      else s)"

definition tokensUpdated ::
  "(int \<Rightarrow> int) \<Rightarrow> nat \<Rightarrow> js_error option \<Rightarrow> ('f, 'a, 'z) system_scheme \<Rightarrow>
   ('f, 'a, 'z) system_scheme" where
  "tokensUpdated expiryOf p failure s =
     (if p < length (promises s) then
        (case promises s ! p of
           (microsoftId, AwaitUpdateTokens newTokens) \<Rightarrow>
             (case failure of
                Some error \<Rightarrow> setPromise p (Settled (Inl (classifyRefreshError error))) s
              | None \<Rightarrow>
                  setPromise p (Settled (Inr (access_token newTokens)))
                    (updateTokens microsoftId (refreshedUser expiryOf newTokens) s))
         | (microsoftId, pc) \<Rightarrow> s)
      else s)"

definition settledWith :: "('f, 'a, 'z) system_scheme \<Rightarrow> nat \<Rightarrow> (js_error + string) option" where
  "settledWith s p =
     (if p < length (promises s) then
        (case snd (promises s ! p) of Settled r \<Rightarrow> Some r | pc \<Rightarrow> None)
      else None)"

text \<open>
  A call goes on after the promise it waits for has settled: it returns or throws the result,
  and a call that waited for its own promise first removes the entry of its identity from
  \<open>activeRefreshes\<close> (the \<open>finally\<close>).
\<close>

definition continue ::
  "nat \<Rightarrow> ('f, 'a, 'z) system_scheme \<Rightarrow> ('f, 'a, 'z) system_scheme" where
  "continue n s =
     (if n < length (calls s) then
        (case calls s ! n of
           (microsoftId, AwaitInFlight p) \<Rightarrow>
             (case settledWith s p of
                Some r \<Rightarrow> setCall n (Finished r) s
              | None \<Rightarrow> s)
         | (microsoftId, AwaitRefresh p) \<Rightarrow>
             (case settledWith s p of
                Some r \<Rightarrow>
                  setCall n (Finished r)
                    (s\<lparr>activeRefreshes := mapDelete (activeRefreshes s) microsoftId\<rparr>)
              | None \<Rightarrow> s)
         | (microsoftId, pc) \<Rightarrow> s)
      else s)"

definition step ::
  "int \<Rightarrow> (int \<Rightarrow> int) \<Rightarrow> ('f, 'a, 'z) system_scheme \<Rightarrow> event \<Rightarrow> ('f, 'a, 'z) system_scheme" where
  "step safetyMargin' expiryOf s ev =
     (case ev of
        Invoke microsoftId forceRefresh \<Rightarrow> invoke microsoftId forceRefresh s
      | UserLoaded n failure dateNow' \<Rightarrow> userLoaded safetyMargin' n failure dateNow' s
      | LastUsedUpdated n failure \<Rightarrow> lastUsedUpdated n failure s
      | TokenEndpointReplied p fetched \<Rightarrow> tokenEndpointReplied p fetched s
      | TokensUpdated p failure \<Rightarrow> tokensUpdated expiryOf p failure s
      | Continue n \<Rightarrow> continue n s)"

definition run ::
  "int \<Rightarrow> (int \<Rightarrow> int) \<Rightarrow> event list \<Rightarrow> ('f, 'a, 'z) system_scheme \<Rightarrow> ('f, 'a, 'z) system_scheme" where
  "run safetyMargin' expiryOf evs s = foldl (step safetyMargin' expiryOf) s evs"

section \<open>Example inputs\<close>






definition flushExampleState :: "(nat, nat) graph_state" where
  "flushExampleState =
     \<lparr>activeRefreshes = [],
      folderDirectoryCache = [(js ''u1'', \<lparr>timestamp = 5, folders = [1, 2]\<rparr>),
                              (js ''u2'', \<lparr>timestamp = 7, folders = []\<rparr>)],
      userAddressCache = [(js ''u1'', \<lparr>timestamp = 6, addresses = [3]\<rparr>)]\<rparr>"

definition shortKeyState :: "(nat, nat) graph_state" where
  "shortKeyState =
     \<lparr>activeRefreshes = [(js ''u1'', 0)], folderDirectoryCache = [], userAddressCache = []\<rparr>"







definition expiredUser :: user where
  "expiredUser = \<lparr>accessToken = ''access-0'', refreshToken = ''refresh-0'', tokenExpiry = 60000\<rparr>"

definition validUser :: user where
  "validUser = \<lparr>accessToken = ''access-0'', refreshToken = ''refresh-0'', tokenExpiry = 3600000\<rparr>"

definition rotatedReply :: token_response where
  "rotatedReply =
     \<lparr>response_ok = True, data_access_token = ''access-1'',
      data_refresh_token = Some ''refresh-1'', data_expires_in = 3600,
      data_error = JAbsent, data_error_description = JAbsent\<rparr>"

definition plainReply :: token_response where
  "plainReply =
     \<lparr>response_ok = True, data_access_token = ''access-1'',
      data_refresh_token = None, data_expires_in = 3600,
      data_error = JAbsent, data_error_description = JAbsent\<rparr>"

text \<open>The reply of the token-refresh test in the migration validation plan.\<close>

definition invalidGrantReply :: token_response where
  "invalidGrantReply =
     \<lparr>response_ok = False, data_access_token = [],
      data_refresh_token = None, data_expires_in = 0,
      data_error = JText (js ''invalid_grant''),
      data_error_description = JText (js ''AADSTS70000: Refresh token has expired'')\<rparr>"

text \<open>A stand-in for \<open>determineExpiryDate\<close>: the lifetime in milliseconds.\<close>

definition exampleExpiryDate :: "int \<Rightarrow> int" where
  "exampleExpiryDate seconds = seconds * 1000"

definition exampleEnv :: "js_error + token_response \<Rightarrow> token_env" where
  "exampleEnv reply =
     \<lparr>inFlightOutcome = Inr ''access-1'', loadFailure = None, dateNow = 0,
      safetyMargin = 120000, touchFailure = None, tokenEndpoint = reply,
      determineExpiryDate = exampleExpiryDate, saveFailure = None\<rparr>"

definition exampleWorld :: "user \<Rightarrow> (nat, nat) world" where
  "exampleWorld usr =
     \<lparr>activeRefreshes = [], folderDirectoryCache = [], userAddressCache = [],
      credentialStore = (Map.empty)(js ''u1'' \<mapsto> usr), tokenRequests = 0\<rparr>"

definition databaseDown :: js_error where
  "databaseDown = Error (js ''connection terminated'')"

definition secondReply :: token_response where
  "secondReply =
     \<lparr>response_ok = True, data_access_token = ''access-2'',
      data_refresh_token = Some ''refresh-2'', data_expires_in = 3600,
      data_error = JAbsent, data_error_description = JAbsent\<rparr>"

definition exampleSystem :: "user \<Rightarrow> (nat, nat) system" where
  "exampleSystem usr =
     \<lparr>activeRefreshes = [], folderDirectoryCache = [], userAddressCache = [],
      credentialStore = (Map.empty)(js ''u1'' \<mapsto> usr), tokenRequests = 0,
      calls = [], promises = []\<rparr>"

text \<open>
  Two calls for \<open>u1\<close> issued together while its token is expired, as by \<open>Promise.all\<close>:
  both are invoked before the database answers either.
\<close>

definition simultaneousCalls :: "event list" where
  "simultaneousCalls =
     [Invoke (js ''u1'') False, Invoke (js ''u1'') False,
      UserLoaded 0 None 0, UserLoaded 1 None 0,
      TokenEndpointReplied 0 (Inr rotatedReply), TokenEndpointReplied 1 (Inr secondReply),
      TokensUpdated 0 None, TokensUpdated 1 None,
      Continue 0, Continue 1]"

text \<open>The second call issued after the first has registered its refresh promise.\<close>

definition laterCall :: "event list" where
  "laterCall =
     [Invoke (js ''u1'') False, UserLoaded 0 None 0, Invoke (js ''u1'') False,
      TokenEndpointReplied 0 (Inr rotatedReply), TokensUpdated 0 None,
      Continue 0, Continue 1]"




definition networkDown :: js_error where
  "networkDown = Error (js ''fetch failed'')"

definition bareInvalidGrantReply :: token_response where
  "bareInvalidGrantReply = invalidGrantReply\<lparr>data_error_description := JAbsent\<rparr>"

text \<open>One call alone: every result it waits for is delivered with no other event between.\<close>

definition singleCall :: "token_env \<Rightarrow> jsstring \<Rightarrow> bool \<Rightarrow> event list" where
  "singleCall env microsoftId forceRefresh =
     [Invoke microsoftId forceRefresh,
      UserLoaded 0 (loadFailure env) (dateNow env),
      LastUsedUpdated 0 (touchFailure env),
      TokenEndpointReplied 0 (tokenEndpoint env),
      TokensUpdated 0 (saveFailure env),
      Continue 0]"

section \<open>Properties of the JavaScript \<open>Map\<close> and \<open>Set\<close> models\<close>

lemma mapGet_mapSet_same: "mapGet (mapSet m k v) k = Some v"
  by (induction m) (auto simp: mapGet_def)

lemma mapGet_mapSet_other: "k' \<noteq> k \<Longrightarrow> mapGet (mapSet m k v) k' = mapGet m k'"
  by (induction m) (auto simp: mapGet_def)

lemma set_foldl_setAdd: "set (foldl setAdd acc xs) = set acc \<union> set xs"
  by (induction xs arbitrary: acc) (auto simp: setAdd_def)

lemma set_newSet: "set (newSet xs) = set xs"
  by (simp add: newSet_def set_foldl_setAdd)

section \<open>C8: the TTL caches\<close>

text \<open>
  Claim C8. An entry stored in a TTL cache at time \<open>T\<close> (the \<open>set\<close> statement of
  \<open>listLabels\<close> or \<open>getUserAddresses\<close>) is returned as a hit by every read at a time
  strictly before \<open>T + TTL\<close>, whatever the remote call would have answered, and the state is
  not changed. A read at or after \<open>T + TTL\<close> is a miss: the result is that of the remote call.
  The read itself evicts nothing: when the remote call fails the stale entry is still in the
  cache, and when it succeeds the entry is overwritten by the new \<open>set\<close>.
\<close>

theorem ttl_cache_boundary:
  "(t < T + FOLDER_CACHE_TTL_MS \<longrightarrow>
      listLabels k t remote t' mapErr (cacheFolders k v T st) = (Inr v, cacheFolders k v T st))
    \<and> (T + FOLDER_CACHE_TTL_MS \<le> t \<longrightarrow>
         listLabels k t remote t' mapErr (cacheFolders k v T st) =
           (case remote of
              Inl error \<Rightarrow> (Inl (mapErr error), cacheFolders k v T st)
            | Inr fs \<Rightarrow> (Inr fs, cacheFolders k fs t' (cacheFolders k v T st))))
    \<and> (t < T + USER_ADDRESS_CACHE_TTL_MS \<longrightarrow>
         getUserAddresses k t remote' t' mapErr (cacheAddresses k w T st)
           = (Inr w, cacheAddresses k w T st))
    \<and> (T + USER_ADDRESS_CACHE_TTL_MS \<le> t \<longrightarrow>
         getUserAddresses k t remote' t' mapErr (cacheAddresses k w T st) =
           (case remote' of
              Inl error \<Rightarrow> (Inl (mapErr error), cacheAddresses k w T st)
            | Inr as \<Rightarrow> (Inr as, cacheAddresses k as t' (cacheAddresses k w T st))))"
proof -
  have f: "mapGet (folderDirectoryCache (cacheFolders k v T st)) k
             = Some \<lparr>timestamp = T, folders = v\<rparr>"
    by (simp add: cacheFolders_def mapGet_mapSet_same)
  have a: "mapGet (userAddressCache (cacheAddresses k w T st)) k
             = Some \<lparr>timestamp = T, addresses = w\<rparr>"
    by (simp add: cacheAddresses_def mapGet_mapSet_same)
  show ?thesis
    using f a by (simp add: listLabels_def getUserAddresses_def Let_def)
qed


theorem ttl_cache_boundary_witness:
  "listLabels (js ''u1'') (1000 + FOLDER_CACHE_TTL_MS - 1) (Inl (Error (js ''offline''))) 0 id
      (cacheFolders (js ''u1'') [1, 2] 1000 flushExampleState)
     = (Inr [1, 2], cacheFolders (js ''u1'') [1, 2] 1000 flushExampleState)
   \<and> listLabels (js ''u1'') (1000 + FOLDER_CACHE_TTL_MS + 1) (Inl (Error (js ''offline''))) 0 id
      (cacheFolders (js ''u1'') [1, 2] 1000 flushExampleState)
     = (Inl (Error (js ''offline'')), cacheFolders (js ''u1'') [1, 2] 1000 flushExampleState)
   \<and> listLabels (js ''u1'') (1000 + FOLDER_CACHE_TTL_MS) (Inr [9]) 400000 id
      (cacheFolders (js ''u1'') [1, 2] 1000 flushExampleState)
     = (Inr [9], cacheFolders (js ''u1'') [9] 400000
          (cacheFolders (js ''u1'') [1, 2] 1000 flushExampleState))
   \<and> getUserAddresses (js ''u1'') (1000 + USER_ADDRESS_CACHE_TTL_MS - 1)
      (Inl (Error (js ''offline''))) 0 id (cacheAddresses (js ''u1'') [3] 1000 flushExampleState)
     = (Inr [3], cacheAddresses (js ''u1'') [3] 1000 flushExampleState)
   \<and> getUserAddresses (js ''u1'') (1000 + USER_ADDRESS_CACHE_TTL_MS + 1)
      (Inl (Error (js ''offline''))) 0 id (cacheAddresses (js ''u1'') [3] 1000 flushExampleState)
     = (Inl (Error (js ''offline'')), cacheAddresses (js ''u1'') [3] 1000 flushExampleState)"
proof -
  have 1: "1000 + FOLDER_CACHE_TTL_MS - 1 < 1000 + FOLDER_CACHE_TTL_MS" by simp
  have 2: "1000 + FOLDER_CACHE_TTL_MS \<le> 1000 + FOLDER_CACHE_TTL_MS + 1" by simp
  have 3: "1000 + FOLDER_CACHE_TTL_MS \<le> 1000 + FOLDER_CACHE_TTL_MS" by simp
  have 4: "1000 + USER_ADDRESS_CACHE_TTL_MS - 1 < 1000 + USER_ADDRESS_CACHE_TTL_MS" by simp
  have 5: "1000 + USER_ADDRESS_CACHE_TTL_MS \<le> 1000 + USER_ADDRESS_CACHE_TTL_MS + 1" by simp
  have folders: "listLabels (js ''u1'') (1000 + FOLDER_CACHE_TTL_MS - 1)
        (Inl (Error (js ''offline''))) 0 id (cacheFolders (js ''u1'') [1, 2] 1000 flushExampleState)
     = (Inr [1, 2], cacheFolders (js ''u1'') [1, 2] 1000 flushExampleState)
   \<and> listLabels (js ''u1'') (1000 + FOLDER_CACHE_TTL_MS + 1) (Inl (Error (js ''offline''))) 0 id
      (cacheFolders (js ''u1'') [1, 2] 1000 flushExampleState)
     = (Inl (Error (js ''offline'')), cacheFolders (js ''u1'') [1, 2] 1000 flushExampleState)
   \<and> listLabels (js ''u1'') (1000 + FOLDER_CACHE_TTL_MS) (Inr [9]) 400000 id
      (cacheFolders (js ''u1'') [1, 2] 1000 flushExampleState)
     = (Inr [9], cacheFolders (js ''u1'') [9] 400000
          (cacheFolders (js ''u1'') [1, 2] 1000 flushExampleState))"
    using ttl_cache_boundary[of "1000 + FOLDER_CACHE_TTL_MS - 1" 1000 "js ''u1''"
        "Inl (Error (js ''offline''))" 0 id "[1, 2]" flushExampleState] 1
      ttl_cache_boundary[of "1000 + FOLDER_CACHE_TTL_MS + 1" 1000 "js ''u1''"
        "Inl (Error (js ''offline''))" 0 id "[1, 2]" flushExampleState] 2
      ttl_cache_boundary[of "1000 + FOLDER_CACHE_TTL_MS" 1000 "js ''u1''"
        "Inr [9]" 400000 id "[1, 2]" flushExampleState] 3
    by simp
  have addresses: "getUserAddresses (js ''u1'') (1000 + USER_ADDRESS_CACHE_TTL_MS - 1)
      (Inl (Error (js ''offline''))) 0 id (cacheAddresses (js ''u1'') [3] 1000 flushExampleState)
     = (Inr [3], cacheAddresses (js ''u1'') [3] 1000 flushExampleState)
   \<and> getUserAddresses (js ''u1'') (1000 + USER_ADDRESS_CACHE_TTL_MS + 1)
      (Inl (Error (js ''offline''))) 0 id (cacheAddresses (js ''u1'') [3] 1000 flushExampleState)
     = (Inl (Error (js ''offline'')), cacheAddresses (js ''u1'') [3] 1000 flushExampleState)"
    using ttl_cache_boundary[where t = "1000 + USER_ADDRESS_CACHE_TTL_MS - 1" and T = 1000
        and k = "js ''u1''" and remote' = "Inl (Error (js ''offline''))" and t' = 0
        and mapErr = id and w = "[3]" and st = flushExampleState] 4
      ttl_cache_boundary[where t = "1000 + USER_ADDRESS_CACHE_TTL_MS + 1" and T = 1000
        and k = "js ''u1''" and remote' = "Inl (Error (js ''offline''))" and t' = 0
        and mapErr = id and w = "[3]" and st = flushExampleState] 5
    by simp
  show ?thesis using folders addresses by blast
qed

section \<open>C9: masked keys in the diagnostics\<close>

lemma maskDebugKey_long: "6 < length k \<Longrightarrow> length (maskDebugKey k) = 6"
  by (simp add: maskDebugKey_def)

lemma summary_keys:
  "set (map key (entries (summarizeCacheEntries cache ttl stamp vs now)))
     \<subseteq> maskDebugKey ` set (mapKeys cache)"
proof -
  have "set (map key (entries (summarizeCacheEntries cache ttl stamp vs now)))
      \<subseteq> key ` set (map (summarizeEntry now ttl stamp vs) cache)"
    using set_take_subset[of DEBUG_CACHE_ENTRY_LIMIT] 
    by (auto simp: summarizeCacheEntries_def dest!: in_set_takeD)
  also have "\<dots> = maskDebugKey ` set (mapKeys cache)"
    by (force simp: summarizeEntry_def mapKeys_def Let_def image_iff)
  finally show ?thesis .
qed

text \<open>
  Claim C9, as amended. Every key reported by \<open>getDebugDiagnostics\<close> is \<open>maskDebugKey\<close> of a
  key of the in-flight map or of one of the two caches. For a key of more than six code units
  the reported value is its first three code units, U+2026 and its last two code units: six
  code units, different from the key. A key of at most six code units is reported unchanged.
\<close>

theorem diagnostics_keys_masked:
  "set (reportedKeys (getDebugDiagnostics now1 now2 st))
      \<subseteq> maskDebugKey ` (set (mapKeys (activeRefreshes st))
            \<union> set (mapKeys (folderDirectoryCache st)) \<union> set (mapKeys (userAddressCache st)))
   \<and> (6 < length k \<longrightarrow>
        maskDebugKey k = take 3 k @ [0x2026] @ drop (length k - 2) k
        \<and> length (maskDebugKey k) = 6 \<and> maskDebugKey k \<noteq> k)
   \<and> (length k \<le> 6 \<longrightarrow> maskDebugKey k = k)"
proof -
  have 1: "set (reportedKeys (getDebugDiagnostics now1 now2 st))
      \<subseteq> maskDebugKey ` (set (mapKeys (activeRefreshes st))
            \<union> set (mapKeys (folderDirectoryCache st)) \<union> set (mapKeys (userAddressCache st)))"
    using summary_keys[of "folderDirectoryCache st" FOLDER_CACHE_TTL_MS timestamp "\<lambda>v. length (folders v)" now1]
      summary_keys[of "userAddressCache st" USER_ADDRESS_CACHE_TTL_MS timestamp "\<lambda>v. length (addresses v)" now2]
    by (auto simp: reportedKeys_def getDebugDiagnostics_def)
  have 2: "6 < length k \<longrightarrow> maskDebugKey k \<noteq> k"
    using maskDebugKey_long[of k] by auto
  show ?thesis using 1 2 by (simp add: maskDebugKey_def)
qed

theorem diagnostics_keys_masked_witness:
  "6 < length (js ''abcdefgh'')
    \<and> maskDebugKey (js ''abcdefgh'') \<noteq> js ''abcdefgh''
    \<and> length (maskDebugKey (js ''abcdefgh'')) = 6
    \<and> length (js ''abcdef'') \<le> 6 \<and> maskDebugKey (js ''abcdef'') = js ''abcdef''"
proof -
  let ?st = "\<lparr>activeRefreshes = [], folderDirectoryCache = [], userAddressCache = []\<rparr>
    :: (unit, unit) graph_state"
  have long: "6 < length (js ''abcdefgh'')" by (simp add: js_def)
  have short: "length (js ''abcdef'') \<le> 6" by (simp add: js_def)
  from long diagnostics_keys_masked[of 0 0 ?st "js ''abcdefgh''"]
  have 1: "maskDebugKey (js ''abcdefgh'') \<noteq> js ''abcdefgh''
      \<and> length (maskDebugKey (js ''abcdefgh'')) = 6"
    by blast
  from short diagnostics_keys_masked[of 0 0 ?st "js ''abcdef''"]
  have 2: "maskDebugKey (js ''abcdef'') = js ''abcdef''"
    by blast
  show ?thesis using long short 1 2 by blast
qed

text \<open>
  The claim as stated (no reported key equals the full identity id) fails for the identity
  \<open>u1\<close> with a refresh in flight: the diagnostics report \<open>u1\<close> itself.
\<close>

theorem diagnostics_exposes_short_key:
  "mapKeys (activeRefreshes shortKeyState) = [js ''u1'']
   \<and> reportedKeys (getDebugDiagnostics 0 0 shortKeyState) = [js ''u1'']"
  by (simp add: shortKeyState_def reportedKeys_def getDebugDiagnostics_def
        summarizeCacheEntries_def mapKeys_def maskDebugKey_def js_def)

section \<open>C10: flushDebugCaches\<close>

lemma no_recognized_filter:
  "\<forall>t \<in> set ts. \<not> recognized t \<Longrightarrow>
     filter (\<lambda>t. t = ''folders'' \<or> t = ''addresses'') (map toLowerCase ts) = []"
  unfolding filter_empty_conv recognized_def by simp

lemma flush_default:
  "filter (\<lambda>t. t = ''folders'' \<or> t = ''addresses'')
      (case tgs of None \<Rightarrow> [] | Some ts \<Rightarrow> map toLowerCase ts) = [] \<Longrightarrow>
   flushDebugCaches tgs st =
        (\<lparr>clearedFolders = Some (mapSize (folderDirectoryCache st)),
          clearedAddresses = Some (mapSize (userAddressCache st)),
          targets = [''folders'', ''addresses'']\<rparr>,
         st\<lparr>folderDirectoryCache := [], userAddressCache := []\<rparr>)"
  by (simp add: flushDebugCaches_def newSet_def setAdd_def)

lemma set_newSet_filter2:
  "set (newSet (filter (\<lambda>t. t = a \<or> t = b) xs)) = set xs \<inter> {a, b}"
  by (auto simp: set_newSet)

lemma flush_named:
  assumes "length (newSet (filter (\<lambda>t. t = ''folders'' \<or> t = ''addresses'')
             (map toLowerCase ts))) \<noteq> 0"
  shows "flushDebugCaches (Some ts) st =
     (let named = newSet (filter (\<lambda>t. t = ''folders'' \<or> t = ''addresses'')
             (map toLowerCase ts));
          f = (''folders'' \<in> set named); a = (''addresses'' \<in> set named)
      in (\<lparr>clearedFolders = (if f then Some (mapSize (folderDirectoryCache st)) else None),
           clearedAddresses = (if a then Some (mapSize (userAddressCache st)) else None),
           targets = named\<rparr>,
          st\<lparr>folderDirectoryCache := (if f then [] else folderDirectoryCache st),
             userAddressCache := (if a then [] else userAddressCache st)\<rparr>))"
  using assms unfolding flushDebugCaches_def Let_def by simp

text \<open>
  Claim C10. A target is recognized when its lower-cased \<open>String\<close> form is \<open>folders\<close> or
  \<open>addresses\<close>. When \<open>targets\<close> is absent, or a list with no recognized element (the empty
  list included), both caches are emptied and the former size of each is reported. When the
  list has a recognized element, the folder cache is emptied exactly when \<open>folders\<close> is named
  and the address cache exactly when \<open>addresses\<close> is named; a cache that is not named is left
  as it was and no size is reported for it. The in-flight map is never touched.
\<close>

theorem flushDebugCaches_targets:
  fixes st :: "('f, 'a) graph_state"
  shows "((tgs = None \<or> tgs = Some ts) \<and> (\<forall>t \<in> set ts. \<not> recognized t) \<longrightarrow>
      flushDebugCaches tgs st =
        (\<lparr>clearedFolders = Some (mapSize (folderDirectoryCache st)),
          clearedAddresses = Some (mapSize (userAddressCache st)),
          targets = [''folders'', ''addresses'']\<rparr>,
         st\<lparr>folderDirectoryCache := [], userAddressCache := []\<rparr>))
   \<and> ((\<exists>t \<in> set ts. recognized t) \<longrightarrow>
      snd (flushDebugCaches (Some ts) st) =
        st\<lparr>folderDirectoryCache :=
             (if ''folders'' \<in> toLowerCase ` set ts then [] else folderDirectoryCache st),
           userAddressCache :=
             (if ''addresses'' \<in> toLowerCase ` set ts then [] else userAddressCache st)\<rparr>
      \<and> clearedFolders (fst (flushDebugCaches (Some ts) st)) =
           (if ''folders'' \<in> toLowerCase ` set ts
            then Some (mapSize (folderDirectoryCache st)) else None)
      \<and> clearedAddresses (fst (flushDebugCaches (Some ts) st)) =
           (if ''addresses'' \<in> toLowerCase ` set ts
            then Some (mapSize (userAddressCache st)) else None)
      \<and> set (targets (fst (flushDebugCaches (Some ts) st)))
           = toLowerCase ` set ts \<inter> {''folders'', ''addresses''})"
proof (intro conjI impI)
  assume h: "(tgs = None \<or> tgs = Some ts) \<and> (\<forall>t \<in> set ts. \<not> recognized t)"
  then have "filter (\<lambda>t. t = ''folders'' \<or> t = ''addresses'')
      (case tgs of None \<Rightarrow> [] | Some ts \<Rightarrow> map toLowerCase ts) = []"
    using no_recognized_filter[of ts] by (cases tgs) simp_all
  then show "flushDebugCaches tgs st =
        (\<lparr>clearedFolders = Some (mapSize (folderDirectoryCache st)),
          clearedAddresses = Some (mapSize (userAddressCache st)),
          targets = [''folders'', ''addresses'']\<rparr>,
         st\<lparr>folderDirectoryCache := [], userAddressCache := []\<rparr>)"
    by (rule flush_default)
next
  assume h: "\<exists>t \<in> set ts. recognized t"
  define named where "named = newSet (filter (\<lambda>t. t = ''folders'' \<or> t = ''addresses'')
             (map toLowerCase ts))"
  have s: "set named = toLowerCase ` set ts \<inter> {''folders'', ''addresses''}"
    unfolding named_def set_newSet_filter2 by simp
  obtain t where t: "t \<in> set ts" "recognized t" using h by blast
  then have "toLowerCase t \<in> set named"
    unfolding s recognized_def by blast
  then have ne: "length named \<noteq> 0" by auto
  have f: "(''folders'' \<in> set named) = (''folders'' \<in> toLowerCase ` set ts)"
    unfolding s by blast
  have a: "(''addresses'' \<in> set named) = (''addresses'' \<in> toLowerCase ` set ts)"
    unfolding s by blast
  note eq = flush_named[OF ne[unfolded named_def], folded named_def, of st, unfolded Let_def f a]
  show "snd (flushDebugCaches (Some ts) st) =
        st\<lparr>folderDirectoryCache :=
             (if ''folders'' \<in> toLowerCase ` set ts then [] else folderDirectoryCache st),
           userAddressCache :=
             (if ''addresses'' \<in> toLowerCase ` set ts then [] else userAddressCache st)\<rparr>"
    unfolding eq by simp
  show "clearedFolders (fst (flushDebugCaches (Some ts) st)) =
           (if ''folders'' \<in> toLowerCase ` set ts
            then Some (mapSize (folderDirectoryCache st)) else None)"
    unfolding eq by simp
  show "clearedAddresses (fst (flushDebugCaches (Some ts) st)) =
           (if ''addresses'' \<in> toLowerCase ` set ts
            then Some (mapSize (userAddressCache st)) else None)"
    unfolding eq by simp
  show "set (targets (fst (flushDebugCaches (Some ts) st)))
           = toLowerCase ` set ts \<inter> {''folders'', ''addresses''}"
    unfolding eq using s by simp
qed

theorem flushDebugCaches_targets_witness:
  "flushDebugCaches (Some [''labels'']) flushExampleState =
     (\<lparr>clearedFolders = Some 2, clearedAddresses = Some 1,
       targets = [''folders'', ''addresses'']\<rparr>,
      flushExampleState\<lparr>folderDirectoryCache := [], userAddressCache := []\<rparr>)
   \<and> snd (flushDebugCaches (Some [''FOLDERS'', ''labels'']) flushExampleState) =
      flushExampleState\<lparr>folderDirectoryCache := []\<rparr>
   \<and> clearedFolders (fst (flushDebugCaches (Some [''FOLDERS'', ''labels'']) flushExampleState))
        = Some 2
   \<and> clearedAddresses (fst (flushDebugCaches (Some [''FOLDERS'', ''labels'']) flushExampleState))
        = None"
proof -
  have lab: "toLowerCase ''labels'' = ''labels''" and fol: "toLowerCase ''FOLDERS'' = ''folders''"
    by (simp_all add: toLowerCase_def lowerChar_def)
  have 1: "(Some [''labels''] = None \<or> Some [''labels''] = Some [''labels''])
      \<and> (\<forall>t \<in> set [''labels'']. \<not> recognized t)"
    by (simp add: recognized_def lab)
  have 2: "\<exists>t \<in> set [''FOLDERS'', ''labels'']. recognized t"
    by (simp add: recognized_def fol)
  have sz: "mapSize (folderDirectoryCache flushExampleState) = 2"
    "mapSize (userAddressCache flushExampleState) = 1"
    by (simp_all add: flushExampleState_def mapSize_def)
  from flushDebugCaches_targets[of "Some [''labels'']" "[''labels'']" flushExampleState] 1
  have a: "flushDebugCaches (Some [''labels'']) flushExampleState =
     (\<lparr>clearedFolders = Some 2, clearedAddresses = Some 1,
       targets = [''folders'', ''addresses'']\<rparr>,
      flushExampleState\<lparr>folderDirectoryCache := [], userAddressCache := []\<rparr>)"
    unfolding sz by blast
  from flushDebugCaches_targets[of None "[''FOLDERS'', ''labels'']" flushExampleState] 2
  have "snd (flushDebugCaches (Some [''FOLDERS'', ''labels'']) flushExampleState) =
        flushExampleState\<lparr>folderDirectoryCache :=
             (if ''folders'' \<in> toLowerCase ` set [''FOLDERS'', ''labels''] then []
              else folderDirectoryCache flushExampleState),
           userAddressCache :=
             (if ''addresses'' \<in> toLowerCase ` set [''FOLDERS'', ''labels''] then []
              else userAddressCache flushExampleState)\<rparr>
      \<and> clearedFolders (fst (flushDebugCaches (Some [''FOLDERS'', ''labels'']) flushExampleState)) =
           (if ''folders'' \<in> toLowerCase ` set [''FOLDERS'', ''labels'']
            then Some (mapSize (folderDirectoryCache flushExampleState)) else None)
      \<and> clearedAddresses (fst (flushDebugCaches (Some [''FOLDERS'', ''labels'']) flushExampleState)) =
           (if ''addresses'' \<in> toLowerCase ` set [''FOLDERS'', ''labels'']
            then Some (mapSize (userAddressCache flushExampleState)) else None)"
    by blast
  then have b: "snd (flushDebugCaches (Some [''FOLDERS'', ''labels'']) flushExampleState) =
      flushExampleState\<lparr>folderDirectoryCache := []\<rparr>
   \<and> clearedFolders (fst (flushDebugCaches (Some [''FOLDERS'', ''labels'']) flushExampleState))
        = Some 2
   \<and> clearedAddresses (fst (flushDebugCaches (Some [''FOLDERS'', ''labels'']) flushExampleState))
        = None"
    unfolding sz by (simp add: lab fol)
  show ?thesis using a b by blast
qed

section \<open>C7: time zone round trips\<close>

lemma map_of_mapSet: "map_of (mapSet m k v) = (map_of m)(k \<mapsto> v)"
  by (induction m) (auto simp: fun_eq_iff)

lemma find_value_Some:
  "find (\<lambda>p. snd p = w) T = Some p \<Longrightarrow> p \<in> set T \<and> snd p = w"
  by (induction T) (auto split: if_splits)

lemma find_value_None:
  "find (\<lambda>p. snd p = w) T = None \<longleftrightarrow> w \<notin> snd ` set T"
  by (induction T) (auto split: if_splits)

lemma buildReverseMap_lookup:
  assumes "\<forall>p \<in> set T. fst p \<noteq> [] \<and> snd p \<notin> set objectPrototypeNames"
      and "\<forall>w k. map_of acc w = Some k \<longrightarrow> k \<noteq> []"
  shows "map_of (buildReverseMap T acc) w =
     (case map_of acc w of
        Some k \<Rightarrow> Some k
      | None \<Rightarrow> map_option fst (find (\<lambda>p. snd p = w) T))"
  using assms
proof (induction T arbitrary: acc)
  case Nil
  then show ?case by (simp split: option.splits)
next
  case (Cons p rest)
  obtain iana windows where p: "p = (iana, windows)" by (cases p)
  have iana: "iana \<noteq> []" and win: "windows \<notin> set objectPrototypeNames"
    and rest: "\<forall>p \<in> set rest. fst p \<noteq> [] \<and> snd p \<notin> set objectPrototypeNames"
    using Cons.prems(1) p by auto
  show ?case
  proof (cases "map_of acc windows")
    case None
    then have step: "buildReverseMap (p # rest) acc
        = buildReverseMap rest (mapSet acc windows iana)"
      using win by (simp add: getProperty_def p)
    have inv: "\<forall>w k. map_of (mapSet acc windows iana) w = Some k \<longrightarrow> k \<noteq> []"
      using Cons.prems(2) iana by (simp add: map_of_mapSet)
    show ?thesis
      unfolding step Cons.IH[OF rest inv]
      using None by (simp add: map_of_mapSet p split: option.splits)
  next
    case (Some k)
    then have "k \<noteq> []" using Cons.prems(2) by blast
    then have step: "buildReverseMap (p # rest) acc = buildReverseMap rest acc"
      using Some by (simp add: getProperty_def truthy_def p)
    show ?thesis
      unfolding step Cons.IH[OF rest Cons.prems(2)]
      using Some by (auto simp add: p split: option.splits)
  qed
qed

lemma tz_keys_distinct: "distinct (map fst ianaToWindowsMap)"
  by code_simp

lemma tz_entries_ok:
  "list_all (\<lambda>p. fst p \<noteq> [] \<and> snd p \<noteq> [] \<and> snd p \<notin> set objectPrototypeNames) ianaToWindowsMap"
  by code_simp

lemma tz_proto_keys_ok:
  "list_all (\<lambda>n. toPropertyKey (Inherited n) \<notin> snd ` set ianaToWindowsMap
       \<and> toPropertyKey (Inherited n) \<notin> set objectPrototypeNames) objectPrototypeNames"
  by code_simp

lemma reverseMap_lookup:
  "map_of (buildReverseMap ianaToWindowsMap []) w
     = map_option fst (find (\<lambda>p. snd p = w) ianaToWindowsMap)"
proof -
  have "\<forall>p \<in> set ianaToWindowsMap. fst p \<noteq> [] \<and> snd p \<notin> set objectPrototypeNames"
    using tz_entries_ok by (simp add: list_all_iff)
  from buildReverseMap_lookup[OF this, of "[]" w] show ?thesis by simp
qed

lemma convertWindowsToIANA_primary:
  assumes "w \<in> snd ` set ianaToWindowsMap"
  shows "\<exists>k. find (\<lambda>p. snd p = w) ianaToWindowsMap = Some (k, w)
           \<and> convertWindowsToIANA (Str w) = Str k
           \<and> convertIANAToWindows (Str k) = Str w"
proof -
  obtain p where f: "find (\<lambda>p. snd p = w) ianaToWindowsMap = Some p"
    using assms find_value_None[of w ianaToWindowsMap] by (cases "find (\<lambda>p. snd p = w) ianaToWindowsMap") auto
  from find_value_Some[OF f] obtain k where p: "p = (k, w)" and mem: "(k, w) \<in> set ianaToWindowsMap"
    by (cases p) auto
  have ok: "k \<noteq> []" "w \<noteq> []" "w \<notin> set objectPrototypeNames"
    using tz_entries_ok mem by (auto simp: list_all_iff)
  have g: "convertWindowsToIANA (Str w) = Str k"
    using ok f p by (simp add: convertWindowsToIANA_def truthy_def toPropertyKey_def
        getProperty_def reverseMap_lookup)
  have "map_of ianaToWindowsMap k = Some w"
    using mem tz_keys_distinct by simp
  then have "convertIANAToWindows (Str k) = Str w"
    using ok by (simp add: convertIANAToWindows_def truthy_def toPropertyKey_def getProperty_def)
  with f p g show ?thesis by blast
qed

lemma find_UTC: "find (\<lambda>p. snd p = ''UTC'') ianaToWindowsMap = Some (''UTC'', ''UTC'')"
  by code_simp

lemma UTC_in_table: "''UTC'' \<in> snd ` set ianaToWindowsMap"
  using find_value_None[of "''UTC''" ianaToWindowsMap] find_UTC by auto

lemma convert_UTC:
  "convertWindowsToIANA (Str ''UTC'') = Str ''UTC''" "convertIANAToWindows (Str ''UTC'') = Str ''UTC''"
  using convertWindowsToIANA_primary[OF UTC_in_table] find_UTC by auto

lemma convertWindowsToIANA_inherited:
  assumes "n \<in> set objectPrototypeNames"
  shows "convertWindowsToIANA (Inherited n) = Str ''UTC''"
proof -
  have a: "toPropertyKey (Inherited n) \<notin> snd ` set ianaToWindowsMap"
    and b: "toPropertyKey (Inherited n) \<notin> set objectPrototypeNames"
    using tz_proto_keys_ok assms by (auto simp: list_all_iff)
  have "find (\<lambda>p. snd p = toPropertyKey (Inherited n)) ianaToWindowsMap = None"
    using a find_value_None by fast
  then show ?thesis
    using b by (simp add: convertWindowsToIANA_def truthy_def getProperty_def reverseMap_lookup)
qed

lemma convertIANAToWindows_range:
  "convertIANAToWindows (Str x) = Str ''UTC''
   \<or> (\<exists>w \<in> snd ` set ianaToWindowsMap. convertIANAToWindows (Str x) = Str w)
   \<or> (\<exists>n \<in> set objectPrototypeNames. convertIANAToWindows (Str x) = Inherited n)"
proof (cases "map_of ianaToWindowsMap x")
  case None
  then show ?thesis
    by (simp add: convertIANAToWindows_def truthy_def toPropertyKey_def getProperty_def)
next
  case (Some w)
  then have "(x, w) \<in> set ianaToWindowsMap" by (rule map_of_SomeD)
  then have "w \<in> snd ` set ianaToWindowsMap" by force
  then show ?thesis using Some
    by (auto simp add: convertIANAToWindows_def truthy_def toPropertyKey_def getProperty_def)
qed

lemma convertWindowsToIANA_first_occurrence:
  "convertWindowsToIANA (Str w) =
     (case find (\<lambda>p. snd p = w) ianaToWindowsMap of
        Some p \<Rightarrow> Str (fst p)
      | None \<Rightarrow> if w \<in> set objectPrototypeNames then Inherited w else Str ''UTC'')"
proof (cases "find (\<lambda>p. snd p = w) ianaToWindowsMap")
  case None
  have "[] \<notin> set objectPrototypeNames" by (simp add: objectPrototypeNames_def)
  then show ?thesis
    using None by (auto simp: convertWindowsToIANA_def truthy_def toPropertyKey_def
        getProperty_def reverseMap_lookup)
next
  case (Some p)
  then have "w \<in> snd ` set ianaToWindowsMap"
    using find_value_None[of w ianaToWindowsMap] by auto
  from convertWindowsToIANA_primary[OF this] Some show ?thesis by auto
qed

lemma Budapest_forward:
  "convertIANAToWindows (Str ''Europe/Budapest'') = Str ''Central Europe Standard Time''"
  by code_simp

lemma Prague_first:
  "find (\<lambda>p. snd p = ''Central Europe Standard Time'') ianaToWindowsMap
     = Some (''Europe/Prague'', ''Central Europe Standard Time'')"
  by code_simp

lemma round_trip_idempotent:
  "convertWindowsToIANA (convertIANAToWindows
      (convertWindowsToIANA (convertIANAToWindows (Str x))))
     = convertWindowsToIANA (convertIANAToWindows (Str x))"
proof -
  consider (utc) "convertIANAToWindows (Str x) = Str ''UTC''"
    | (known) w where "w \<in> snd ` set ianaToWindowsMap" "convertIANAToWindows (Str x) = Str w"
    | (inherited) n where "n \<in> set objectPrototypeNames" "convertIANAToWindows (Str x) = Inherited n"
    using convertIANAToWindows_range[of x] by blast
  then show ?thesis
  proof cases
    case utc
    then show ?thesis by (simp add: convert_UTC)
  next
    case known
    from convertWindowsToIANA_primary[OF known(1)] obtain k where
      "convertWindowsToIANA (Str w) = Str k" "convertIANAToWindows (Str k) = Str w"
      by blast
    then show ?thesis using known(2) by simp
  next
    case inherited
    then show ?thesis by (simp add: convertWindowsToIANA_inherited convert_UTC)
  qed
qed

text \<open>
  Claim C7. For every time zone name \<open>x\<close>, known or not, converting to the Windows name and
  back a second time gives what the first round trip gave. The inverse conversion is a function
  of the fixed table: on a Windows name it returns the first IANA name listed for it in the
  table order (an unknown name gives \<open>UTC\<close>, or the inherited member when the name is one of
  \<open>Object.prototype\<close>). The first round trip need not give \<open>x\<close> back:
  \<open>Europe/Budapest\<close> comes back as \<open>Europe/Prague\<close>.
\<close>

theorem timezone_round_trip_idempotent:
  "convertWindowsToIANA (convertIANAToWindows
      (convertWindowsToIANA (convertIANAToWindows (Str x))))
     = convertWindowsToIANA (convertIANAToWindows (Str x))
   \<and> convertWindowsToIANA (Str w) =
     (case find (\<lambda>p. snd p = w) ianaToWindowsMap of
        Some p \<Rightarrow> Str (fst p)
      | None \<Rightarrow> if w \<in> set objectPrototypeNames then Inherited w else Str ''UTC'')
   \<and> convertWindowsToIANA (convertIANAToWindows (Str ''Europe/Budapest''))
        = Str ''Europe/Prague''"
proof -
  have "convertWindowsToIANA (convertIANAToWindows (Str ''Europe/Budapest''))
        = Str ''Europe/Prague''"
    unfolding Budapest_forward convertWindowsToIANA_first_occurrence Prague_first by simp
  then show ?thesis
    using round_trip_idempotent[of x] convertWindowsToIANA_first_occurrence[of w] by blast
qed

section \<open>C5: the delay before a retry\<close>


















section \<open>C2: recovery from Unauthorized\<close>













section \<open>Token refresh: one call\<close>

lemma mapHas_mapSet: "mapHas (mapSet m k v) k"
  by (induction m) (auto simp: mapHas_def)

lemma mapDelete_mapSet_absent: "\<not> mapHas m k \<Longrightarrow> mapDelete (mapSet m k v) k = m"
proof (induction m)
  case Nil
  then show ?case by (simp add: mapDelete_def)
next
  case (Cons p m)
  then show ?case by (cases p) (auto simp: mapDelete_def mapHas_def split: if_splits)
qed


text \<open>The message of a failed refresh: \<open>null\<close> and a missing field print as those words.\<close>

lemma refresh_failure_message:
  "\<not> response_ok data \<Longrightarrow>
     refreshAccessToken sent (Inr data) =
       Inl (Error (js ''Microsoft token refresh failed: ''
              @ templateText (textOrElse (data_error_description data) (data_error data))))"
  by (simp add: refreshAccessToken_def)

lemma falsy_error_texts:
  "templateText (textOrElse JAbsent JNull) = js ''null''"
  "templateText (textOrElse JNull JAbsent) = js ''undefined''"
  "templateText (textOrElse (JText []) (JText e)) = e"
  "d \<noteq> [] \<Longrightarrow> templateText (textOrElse (JText d) (JText e)) = d"
  by (simp_all add: templateText_def textOrElse_def)



lemma example_facts:
  "\<not> mapHas (activeRefreshes (exampleWorld usr)) (js ''u1'')"
  "loadFailure (exampleEnv reply) = None"
  "credentialStore (exampleWorld usr) (js ''u1'') = Some usr"
  "tokenEndpoint (exampleEnv reply) = reply"
  "saveFailure (exampleEnv reply) = None"
  "touchFailure (exampleEnv reply) = None"
  "isTokenExpired (safetyMargin (exampleEnv reply)) (dateNow (exampleEnv reply))
     (tokenExpiry expiredUser)"
  "\<not> isTokenExpired (safetyMargin (exampleEnv reply)) (dateNow (exampleEnv reply))
     (tokenExpiry validUser)"
  "determineExpiryDate (exampleEnv reply) 3600 = 3600000"
  by (simp_all add: exampleWorld_def exampleEnv_def mapHas_def isTokenExpired_def
      expiredUser_def validUser_def exampleExpiryDate_def)

section \<open>Concurrent calls: evaluation of a schedule\<close>

lemmas run_eval = run_def step_def invoke_def userLoaded_def lastUsedUpdated_def
  tokenEndpointReplied_def tokensUpdated_def continue_def settledWith_def setCall_def
  setPromise_def mapGet_def mapDelete_def updateTokens_def refreshedUser_def
  refreshAccessToken_def orElse_def isTokenExpired_def

section \<open>Concurrent calls: a refresh among other events\<close>



















section \<open>C3: the stored refresh token after a refresh\<close>




section \<open>C4: failed refreshes\<close>

lemma refresh_failure_surfaced:
  assumes "\<not> mapHas (activeRefreshes w) microsoftId" "loadFailure env = None"
    "credentialStore w microsoftId = Some usr"
    "forceRefresh \<or> isTokenExpired (safetyMargin env) (dateNow env) (tokenExpiry usr)"
    "refreshAccessToken (refreshToken usr) (tokenEndpoint env) = Inl e"
  shows "getValidAccessToken env microsoftId forceRefresh w =
     (Inl (classifyRefreshError e), w\<lparr>tokenRequests := tokenRequests w + 1\<rparr>)"
  using assms
  by (simp add: getValidAccessToken_def refreshPromise_def Let_def mapDelete_mapSet_absent)

lemma bare_invalid_grant_classified:
  "fst (getValidAccessToken (exampleEnv (Inr bareInvalidGrantReply)) (js ''u1'') False
      (exampleWorld expiredUser))
     = Inl (Error (js ''REFRESH_TOKEN_EXPIRED: User must re-authenticate''))"
proof -
  have r: "refreshAccessToken (refreshToken expiredUser)
      (tokenEndpoint (exampleEnv (Inr bareInvalidGrantReply)))
     = Inl (Error (js ''Microsoft token refresh failed: invalid_grant''))"
    by (simp add: refreshAccessToken_def example_facts bareInvalidGrantReply_def
        invalidGrantReply_def textOrElse_def templateText_def js_def)
  have c: "classifyRefreshError (Error (js ''Microsoft token refresh failed: invalid_grant''))
     = Error (js ''REFRESH_TOKEN_EXPIRED: User must re-authenticate'')"
    by (simp add: classifyRefreshError_def Error_def js_def)
  show ?thesis
    using refresh_failure_surfaced[OF example_facts(1) example_facts(2) example_facts(3) _ r,
        of False] example_facts(7)
    by (simp add: c)
qed

text \<open>
  Claim C4 at a failing input: the reply of the token-refresh test of the migration
  validation plan, \<open>invalid_grant\<close> with the description
  \<open>AADSTS70000: Refresh token has expired\<close>. \<open>refreshAccessToken\<close> puts the description, not
  the error code, into the message, and the message contains neither \<open>invalid_grant\<close> nor
  \<open>refresh token\<close> (the description has a capital R), so \<open>getValidAccessToken\<close> rethrows the
  error as it is and not as \<open>REFRESH_TOKEN_EXPIRED\<close>; one request was sent and none is
  repeated. The variant of tasksService errs the other way: a network failure of the refresh
  is thrown as the re-authentication error.
\<close>

theorem invalid_grant_not_classified:
  "getValidAccessToken (exampleEnv (Inr invalidGrantReply)) (js ''u1'') False
      (exampleWorld expiredUser)
     = (Inl (Error (js ''Microsoft token refresh failed: AADSTS70000: Refresh token has expired'')),
        (exampleWorld expiredUser)\<lparr>tokenRequests := 1\<rparr>)
   \<and> Error (js ''Microsoft token refresh failed: AADSTS70000: Refresh token has expired'')
       \<noteq> Error (js ''REFRESH_TOKEN_EXPIRED: User must re-authenticate'')
   \<and> tasksGetValidAccessToken (exampleEnv (Inl networkDown)) id (js ''u1'')
      (exampleWorld expiredUser)
     = (Inl (serviceError (js ''Authentication required - please log in again'') 401
              ''MICROSOFT_UNAUTHORIZED''),
        (exampleWorld expiredUser)\<lparr>tokenRequests := 1\<rparr>)"
proof -
  have r: "refreshAccessToken (refreshToken expiredUser)
      (tokenEndpoint (exampleEnv (Inr invalidGrantReply)))
     = Inl (Error (js ''Microsoft token refresh failed: AADSTS70000: Refresh token has expired''))"
    by (simp add: refreshAccessToken_def example_facts invalidGrantReply_def textOrElse_def
        templateText_def js_def)
  have c: "classifyRefreshError
      (Error (js ''Microsoft token refresh failed: AADSTS70000: Refresh token has expired''))
     = Error (js ''Microsoft token refresh failed: AADSTS70000: Refresh token has expired'')"
    by (simp add: classifyRefreshError_def Error_def js_def)
  have t: "tokenRequests (exampleWorld expiredUser) = 0" by (simp add: exampleWorld_def)
  have "getValidAccessToken (exampleEnv (Inr invalidGrantReply)) (js ''u1'') False
      (exampleWorld expiredUser)
     = (Inl (Error (js ''Microsoft token refresh failed: AADSTS70000: Refresh token has expired'')),
        (exampleWorld expiredUser)\<lparr>tokenRequests := 1\<rparr>)"
    using refresh_failure_surfaced[OF example_facts(1) example_facts(2) example_facts(3) _ r, of False]
      example_facts(7) by (simp add: c t)
  moreover have "Error (js ''Microsoft token refresh failed: AADSTS70000: Refresh token has expired'')
       \<noteq> Error (js ''REFRESH_TOKEN_EXPIRED: User must re-authenticate'')"
    by (simp add: Error_def js_def)
  moreover have "tasksGetValidAccessToken (exampleEnv (Inl networkDown)) id (js ''u1'')
      (exampleWorld expiredUser)
     = (Inl (serviceError (js ''Authentication required - please log in again'') 401
              ''MICROSOFT_UNAUTHORIZED''),
        (exampleWorld expiredUser)\<lparr>tokenRequests := 1\<rparr>)"
    by (simp add: tasksGetValidAccessToken_def example_facts refreshAccessToken_def t Let_def)
  ultimately show ?thesis by blast
qed

section \<open>C6: the last-used touch\<close>

lemma cached_token_path:
  assumes "\<not> mapHas (activeRefreshes w) microsoftId" "loadFailure env = None"
    "credentialStore w microsoftId = Some usr"
    "\<not> isTokenExpired (safetyMargin env) (dateNow env) (tokenExpiry usr)"
  shows "getValidAccessToken env microsoftId False w =
     (case touchFailure env of
        Some error \<Rightarrow> (Inl error, w)
      | None \<Rightarrow> (Inr (accessToken usr), w))"
  using assms by (simp add: getValidAccessToken_def)

lemma tasks_cached_token_path:
  assumes "loadFailure env = None" "credentialStore w microsoftId = Some usr"
    "\<not> isTokenExpired (safetyMargin env) (dateNow env) (tokenExpiry usr)"
  shows "tasksGetValidAccessToken env mapErr microsoftId w = (Inr (accessToken usr), w)"
  using assms by (simp add: tasksGetValidAccessToken_def)

text \<open>
  Claim C6 at a failing input: the token of \<open>u1\<close> is still valid, \<open>forceRefresh\<close> is false
  and \<open>updateLastUsed\<close> rejects. \<open>getValidAccessToken\<close> of microsoftGraphService awaits the
  touch inside its \<open>try\<close>, so the call fails with the database error and the cached token is
  not returned. The variant of tasksService does not await the touch and catches its
  rejection: there the cached token is returned.
\<close>

theorem touch_failure_propagates:
  "getValidAccessToken ((exampleEnv (Inr plainReply))\<lparr>touchFailure := Some databaseDown\<rparr>)
      (js ''u1'') False (exampleWorld validUser)
     = (Inl databaseDown, exampleWorld validUser)
   \<and> tasksGetValidAccessToken ((exampleEnv (Inr plainReply))\<lparr>touchFailure := Some databaseDown\<rparr>)
      id (js ''u1'') (exampleWorld validUser)
     = (Inr ''access-0'', exampleWorld validUser)"
  by (simp add: getValidAccessToken_def tasksGetValidAccessToken_def exampleEnv_def
      exampleWorld_def mapHas_def isTokenExpired_def validUser_def)

section \<open>C1: concurrent calls\<close>

lemma mapGet_None: "\<not> mapHas m k \<Longrightarrow> mapGet m k = None"
  by (simp add: mapHas_def mapGet_def)

lemmas single_eval = singleCall_def run_def step_def invoke_def userLoaded_def
  lastUsedUpdated_def tokenEndpointReplied_def tokensUpdated_def continue_def settledWith_def
  setCall_def setPromise_def mapGet_None getValidAccessToken_def refreshPromise_def Let_def
  updateTokens_def mapDelete_mapSet_absent

text \<open>
  A call that runs alone in the system ends as the one-call function says: same result, same
  credential store, same number of requests, same in-flight map.
\<close>

lemma single_call_agrees:
  fixes s :: "('f, 'a, 'z) system_scheme" and env :: token_env and forceRefresh :: bool
    and microsoftId :: jsstring
  assumes "calls s = []" "promises s = []" "\<not> mapHas (activeRefreshes s) microsoftId"
  defines "s' \<equiv> run (safetyMargin env) (determineExpiryDate env)
            (singleCall env microsoftId forceRefresh) s"
  shows "map snd (calls s') = [Finished (fst (getValidAccessToken env microsoftId forceRefresh s))]
     \<and> credentialStore s' = credentialStore (snd (getValidAccessToken env microsoftId forceRefresh s))
     \<and> tokenRequests s' = tokenRequests (snd (getValidAccessToken env microsoftId forceRefresh s))
     \<and> activeRefreshes s' = activeRefreshes (snd (getValidAccessToken env microsoftId forceRefresh s))"
proof -
  consider (loadFails) e where "loadFailure env = Some e"
    | (noUser) "loadFailure env = None" "credentialStore s microsoftId = None"
    | (valid) usr where "loadFailure env = None" "credentialStore s microsoftId = Some usr"
        "\<not> (forceRefresh \<or> isTokenExpired (safetyMargin env) (dateNow env) (tokenExpiry usr))"
    | (refreshFails) usr e where "loadFailure env = None" "credentialStore s microsoftId = Some usr"
        "forceRefresh \<or> isTokenExpired (safetyMargin env) (dateNow env) (tokenExpiry usr)"
        "refreshAccessToken (refreshToken usr) (tokenEndpoint env) = Inl e"
    | (refreshed) usr nt where "loadFailure env = None" "credentialStore s microsoftId = Some usr"
        "forceRefresh \<or> isTokenExpired (safetyMargin env) (dateNow env) (tokenExpiry usr)"
        "refreshAccessToken (refreshToken usr) (tokenEndpoint env) = Inr nt"
    by (cases "loadFailure env"; cases "credentialStore s microsoftId";
        cases "refreshAccessToken (refreshToken (the (credentialStore s microsoftId))) (tokenEndpoint env)")
      auto
  then show ?thesis
  proof cases
    case loadFails
    then show ?thesis using assms(1-3) unfolding s'_def by (simp add: single_eval)
  next
    case noUser
    then show ?thesis using assms(1-3) unfolding s'_def by (simp add: single_eval)
  next
    case valid
    then show ?thesis using assms(1-3) unfolding s'_def
      by (cases "touchFailure env") (simp_all add: single_eval)
  next
    case refreshFails
    then show ?thesis using assms(1-3) unfolding s'_def
      by (cases forceRefresh) (simp_all add: single_eval mapHas_mapSet)
  next
    case refreshed
    then show ?thesis using assms(1-3) unfolding s'_def
      by (cases "saveFailure env"; cases forceRefresh) (simp_all add: single_eval mapHas_mapSet)
  qed
qed

text \<open>
  When the second call is issued after the first has stored its refresh promise, it waits for
  that promise: one request is sent and both calls return the same token.
\<close>

lemma later_call_coalesced:
  "tokenRequests (run 120000 exampleExpiryDate laterCall
      (exampleSystem expiredUser)) = 1
   \<and> map snd (calls (run 120000 exampleExpiryDate laterCall
      (exampleSystem expiredUser)))
     = [Finished (Inr ''access-1''), Finished (Inr ''access-1'')]"
  by (simp add: run_eval laterCall_def exampleSystem_def expiredUser_def
      rotatedReply_def js_def exampleExpiryDate_def)

text \<open>
  For every identity with an expired token and no refresh in flight: two calls issued before
  either user record is delivered send two requests to the token endpoint.
\<close>

lemma simultaneous_calls_send_two_requests:
  fixes s :: "('f, 'a, 'z) system_scheme"
  assumes "calls s = []" "promises s = []" "\<not> mapHas (activeRefreshes s) microsoftId"
    and "credentialStore s microsoftId = Some usr"
    and "isTokenExpired margin t1 (tokenExpiry usr)" "isTokenExpired margin t2 (tokenExpiry usr)"
  shows "tokenRequests (run margin expiryOf
            [Invoke microsoftId False, Invoke microsoftId False,
             UserLoaded 0 None t1, UserLoaded 1 None t2] s)
         = tokenRequests s + 2"
  using assms
  by (simp add: run_def step_def invoke_def userLoaded_def setCall_def mapGet_None Let_def)

text \<open>
  Claim C1 at a failing input: two calls for \<open>u1\<close> issued together while its token is
  expired. Each call tests \<open>activeRefreshes\<close> before it awaits the user record and stores its
  promise only afterwards, so neither sees the other's refresh: once both user records are
  delivered two requests have been sent to the token endpoint, and with the replies of the
  example the two calls return different access tokens.
\<close>

theorem simultaneous_calls_refresh_twice:
  "tokenRequests (run 120000 exampleExpiryDate (take 4 simultaneousCalls)
      (exampleSystem expiredUser)) = 2
   \<and> tokenRequests (run 120000 exampleExpiryDate simultaneousCalls
      (exampleSystem expiredUser)) = 2
   \<and> map snd (calls (run 120000 exampleExpiryDate simultaneousCalls
      (exampleSystem expiredUser)))
     = [Finished (Inr ''access-1''), Finished (Inr ''access-2'')]"
  by (simp add: run_eval simultaneousCalls_def exampleSystem_def expiredUser_def
      rotatedReply_def secondReply_def js_def exampleExpiryDate_def)

end
